theory Spec2Isabelle
  imports Main "HOL-Library.Sublist"
begin

section \<open>Strings and exceptions\<close>

text \<open>
  A Python \<open>str\<close> is a sequence of Unicode code points, so a character is a natural
  number and a string a list of them. \<open>py\<close> turns an ASCII literal into such a string.
\<close>

type_synonym codepoint = nat
type_synonym str = "codepoint list"

definition py :: "string \<Rightarrow> str" where
  "py s = map of_char s"

definition quoted :: "str \<Rightarrow> str" where
  \<comment> \<open>the text between two apostrophes (code point 39)\<close>
  "quoted s = 39 # s @ [39]"

text \<open>
  The exceptions that occur, each with the message \<open>str(e)\<close> gives. All four are
  subclasses of \<open>Exception\<close>; the last constructor stands for any other exception that
  a library call raises.
\<close>

datatype exn = AttributeError str | KeyError str | IndexError str | Exception str

fun exn_str :: "exn \<Rightarrow> str" where
  "exn_str (AttributeError m) = m"
| "exn_str (KeyError m) = m"
| "exn_str (IndexError m) = m"
| "exn_str (Exception m) = m"

definition none_has_no_attribute :: "string \<Rightarrow> exn" where
  \<comment> \<open>what an attribute access on \<open>None\<close> raises\<close>
  "none_has_no_attribute a =
     AttributeError (quoted (py ''NoneType'') @ py '' object has no attribute '' @ quoted (py a))"

section \<open>The library functions of the cleaning pipeline\<close>

text \<open>
  \<open>re.sub('[^a-zA-Z]', ' ', text)\<close>: the pattern is one negated character class with
  the ranges \<open>a-z\<close> (97 to 122) and \<open>A-Z\<close> (65 to 90). The scan goes left to right;
  a character that matches is replaced by the replacement string, one that does not is
  copied.
\<close>

definition matches_non_letter :: "codepoint \<Rightarrow> bool" where
  "matches_non_letter c = (\<not> ((97 \<le> c \<and> c \<le> 122) \<or> (65 \<le> c \<and> c \<le> 90)))"

primrec re_sub_non_letters :: "str \<Rightarrow> str \<Rightarrow> str" where
  "re_sub_non_letters repl [] = []"
| "re_sub_non_letters repl (c # cs) =
     (if matches_non_letter c then repl @ re_sub_non_letters repl cs
      else c # re_sub_non_letters repl cs)"

text \<open>
  \<open>str.lower\<close>. The text that reaches it holds ASCII letters and spaces only (line 68
  has replaced everything else), and on ASCII Python's \<open>lower\<close> maps \<open>A-Z\<close> to
  \<open>a-z\<close> and keeps every other character.
\<close>

definition lower_char :: "codepoint \<Rightarrow> codepoint" where
  "lower_char c = (if 65 \<le> c \<and> c \<le> 90 then c + 32 else c)"

definition str_lower :: "str \<Rightarrow> str" where
  "str_lower s = map lower_char s"

text \<open>
  \<open>str.isspace\<close> on one character, as \<open>str.split()\<close> and \<open>str.strip()\<close> use it:
  the code points with the Unicode White_Space property or bidirectional class WS, B or S.
\<close>

definition isspace :: "codepoint \<Rightarrow> bool" where
  "isspace c = ((9 \<le> c \<and> c \<le> 13) \<or> (28 \<le> c \<and> c \<le> 32) \<or> c = 133 \<or> c = 160
     \<or> c = 5760 \<or> (8192 \<le> c \<and> c \<le> 8202) \<or> c = 8232 \<or> c = 8233 \<or> c = 8239
     \<or> c = 8287 \<or> c = 12288)"

text \<open>
  \<open>str.split()\<close> without a separator: skip whitespace, take the characters up to the
  next whitespace as a word, and go on behind it; no empty word is produced.
\<close>

function str_split :: "str \<Rightarrow> str list" where
  "str_split s =
     (case dropWhile isspace s of
        [] \<Rightarrow> []
      | c # cs \<Rightarrow>
          (c # takeWhile (\<lambda>x. \<not> isspace x) cs) # str_split (dropWhile (\<lambda>x. \<not> isspace x) cs))"
  by pat_completeness auto
termination
proof (relation "measure length")
  show "wf (measure length)" by simp
next
  fix s :: str and c cs
  assume a: "dropWhile isspace s = c # cs"
  have "length (dropWhile (\<lambda>x. \<not> isspace x) cs) \<le> length cs"
    by (rule length_dropWhile_le)
  also have "length cs < length (dropWhile isspace s)"
    using a by simp
  also have "length (dropWhile isspace s) \<le> length s"
    by (rule length_dropWhile_le)
  finally show "(dropWhile (\<lambda>x. \<not> isspace x) cs, s) \<in> measure length"
    by simp
qed

text \<open>\<open>str.strip()\<close>: whitespace removed at both ends.\<close>

definition str_strip :: "str \<Rightarrow> str" where
  "str_strip s = rev (dropWhile isspace (rev (dropWhile isspace s)))"

text \<open>\<open>sep.join(words)\<close>: the words, with the separator between neighbours.\<close>

fun str_join :: "str \<Rightarrow> str list \<Rightarrow> str" where
  "str_join sep [] = []"
| "str_join sep [w] = w"
| "str_join sep (w # v # ws) = w @ sep @ str_join sep (v # ws)"

section \<open>\<open>predict_sentiment\<close> and \<open>create_card\<close>\<close>

text \<open>
  The model and the vectorizer are unpickled objects of classes this repository does not
  define. An object is modelled by the name of its class and by the two attributes the
  code looks up on it: an attribute is missing (\<open>None\<close>) or is a method, and a call
  of a method answers with a value or with an exception. \<open>'x\<close> is the type of the
  feature matrix. A variable that holds such an object or Python's \<open>None\<close> has an
  option type.

  \<open>predict\<close> returns an array. An element of it is modelled by what line 72 asks of
  it, the truth of \<open>element == 0\<close>: true, false, or the exception that testing it
  raises (as for a row of several columns, when the array has two dimensions). A number
  is such an element.
\<close>

type_synonym label = "exn + bool"

definition int_label :: "int \<Rightarrow> label" where
  "int_label n = Inr (n = 0)"

record 'x pyobj =
  class_name :: str
  predict :: "('x \<Rightarrow> exn + label list) option"
  transform :: "(str list \<Rightarrow> exn + 'x) option"

definition has_no_attribute :: "str \<Rightarrow> string \<Rightarrow> exn" where
  \<comment> \<open>what the lookup of a missing attribute raises\<close>
  "has_no_attribute cls a =
     AttributeError (quoted cls @ py '' object has no attribute '' @ quoted (py a))"

definition clean_text :: "str \<Rightarrow> str list \<Rightarrow> str" where
  \<comment> \<open>lines 68 to 71 of \<open>predict_sentiment\<close>: the successive values of \<open>text\<close>\<close>
  "clean_text text stop_words =
     (let text1 = re_sub_non_letters (py '' '') text;
          text2 = str_split (str_lower text1);
          text3 = filter (\<lambda>word. word \<notin> set stop_words) text2;
          text4 = str_join (py '' '') text3
      in text4)"

definition index_out_of_bounds :: exn where
  "index_out_of_bounds = IndexError (py ''index 0 is out of bounds for axis 0 with size 0'')"

definition classify :: "str \<Rightarrow> 'x pyobj option \<Rightarrow> 'x pyobj option \<Rightarrow> exn + str" where
  \<comment> \<open>line 72, in the order of evaluation: the attribute \<open>model.predict\<close> is looked
      up, then \<open>vectorizer.transform\<close>; \<open>transform\<close> is called, then \<open>predict\<close>;
      the result is indexed, and its first element compared with 0\<close>
  "classify text model vectorizer =
     (case model of
        None \<Rightarrow> Inl (none_has_no_attribute ''predict'')
      | Some m \<Rightarrow>
     (case predict m of
        None \<Rightarrow> Inl (has_no_attribute (class_name m) ''predict'')
      | Some model_predict \<Rightarrow>
     (case vectorizer of
        None \<Rightarrow> Inl (none_has_no_attribute ''transform'')
      | Some v \<Rightarrow>
     (case transform v of
        None \<Rightarrow> Inl (has_no_attribute (class_name v) ''transform'')
      | Some vectorizer_transform \<Rightarrow>
     (case vectorizer_transform [text] of
        Inl e \<Rightarrow> Inl e
      | Inr X \<Rightarrow>
     (case model_predict X of
        Inl e \<Rightarrow> Inl e
      | Inr [] \<Rightarrow> Inl index_out_of_bounds
      | Inr (y # ys) \<Rightarrow>
     (case y of
        Inl e \<Rightarrow> Inl e
      | Inr is_zero \<Rightarrow> Inr (if is_zero then py ''Negative'' else py ''Positive''))))))))"

definition predict_sentiment ::
  "str \<Rightarrow> 'x pyobj option \<Rightarrow> 'x pyobj option \<Rightarrow> str list \<Rightarrow> exn + str" where
  "predict_sentiment text model vectorizer stop_words =
     (let text = clean_text text stop_words in classify text model vectorizer)"

definition card_color :: "str \<Rightarrow> str" where
  "card_color sentiment =
     (if sentiment = py ''Positive'' then py ''#4CAF50'' else py ''#F44336'')"

definition card_top :: str where
  \<open>card_top = py ''\<newline>    <div style="background-color: ''\<close>

definition card_heading :: str where
  \<open>card_heading = py (''; padding: 12px; border-radius: 8px; margin: 10px 0; '' @
     ''box-shadow: 0 2px 4px rgba(0,0,0,0.1)">\<newline>'' @
     ''        <h5 style="color: white; margin-top: 0;">'')\<close>

definition card_body :: str where
  \<open>card_body = py ('' Sentiment</h5>\<newline>'' @
     ''        <p style="color: white; margin-bottom: 0;">'')\<close>

definition card_bottom :: str where
  \<open>card_bottom = py ''</p>\<newline>    </div>\<newline>    ''\<close>

definition create_card :: "str \<Rightarrow> str \<Rightarrow> str" where
  \<comment> \<open>the f-string of lines 76 to 81, cut at its three placeholders\<close>
  "create_card tweet_text sentiment =
     (let color = card_color sentiment
      in card_top @ color @ card_heading @ sentiment @ card_body @ tweet_text @ card_bottom)"

text \<open>
  Reading a card as a browser does: the style attribute of its first \<open>div\<close> is the
  text between \<open><div style="\<close> and the next double quote (code point 34), and the
  value of a property in a style is the text between the property's name with \<open>: \<close>
  and the next semicolon (code point 59).
\<close>

fun find_after :: "str \<Rightarrow> str \<Rightarrow> str option" where
  \<comment> \<open>what follows the first occurrence of the pattern\<close>
  "find_after pattern [] = (if pattern = [] then Some [] else None)"
| "find_after pattern (c # cs) =
     (if prefix pattern (c # cs) then Some (drop (length pattern) (c # cs))
      else find_after pattern cs)"

definition div_style :: "str \<Rightarrow> str option" where
  \<open>div_style html = map_option (takeWhile (\<lambda>c. c \<noteq> 34)) (find_after (py ''<div style="'') html)\<close>

definition css_value :: "str \<Rightarrow> str \<Rightarrow> str option" where
  "css_value property style =
     map_option (takeWhile (\<lambda>c. c \<noteq> 59)) (find_after (property @ py '': '') style)"

definition background_color :: "str \<Rightarrow> str option" where
  "background_color html =
     (case div_style html of None \<Rightarrow> None | Some style \<Rightarrow> css_value (py ''background-color'') style)"

section \<open>The outside world and the log of a run\<close>

text \<open>
  Everything the program gets from outside is a field of the environment: the answers of
  the operating system, of NLTK, of \<open>pickle\<close>, of the scraping library, and what the
  user has typed and clicked in the page. A library call answers with a value or with an
  exception. No call is made twice with the same arguments in one run of the script (a
  scraper is a new object at each construction), so an answer that depends on the
  arguments alone loses nothing. The calls of \<open>st\<close> that put something on the page
  are logged and do not raise.

  A tweet is a dictionary, here with its string-valued entries; a response of the
  scraping library is \<open>None\<close> or a dictionary of lists of tweets. Dictionaries are
  association lists, looked up with \<open>map_of\<close>.
\<close>

type_synonym bytes = "nat list"
type_synonym tweet = "(str \<times> str) list"

datatype response = NoneResponse | DictResponse "(str \<times> tweet list) list"

record ('x, 's) env =
  os_listdir :: "str \<Rightarrow> exn + str list"
  nltk_download :: "str \<Rightarrow> exn + bool"
  stopwords_words :: "str \<Rightarrow> exn + str list"
  open_rb :: "str \<Rightarrow> exn + bytes"
  pickle_load :: "bytes \<Rightarrow> exn + 'x pyobj"
  Nitter :: "nat \<Rightarrow> bool \<Rightarrow> str option \<Rightarrow> exn + 's"
  get_tweets :: "'s \<Rightarrow> str \<Rightarrow> str \<Rightarrow> nat \<Rightarrow> nat \<Rightarrow> exn + response"
  st_text_area :: str
  st_text_input :: str
  st_button :: "str \<Rightarrow> bool"

text \<open>
  The log of a run: the calls the program makes, in order, and what it puts on the page.
  \<open>Call_Nitter\<close> has the arguments \<open>log_level\<close>, \<open>skip_instance_check\<close> and
  \<open>instance\<close>; \<open>Call_get_tweets\<close> the scraper, the term, \<open>mode\<close>, \<open>number\<close> and
  \<open>max_retries\<close>; \<open>St_markdown\<close> the text and \<open>unsafe_allow_html\<close>.
\<close>

datatype ('x, 's) event =
    Call_os_listdir str
  | Call_load_stopwords
  | Call_nltk_download str
  | Call_stopwords_words str
  | Call_load_model_and_vectorizer
  | Call_open str
  | Call_pickle_load bytes
  | Call_initialize_scraper
  | Call_Nitter nat bool "str option"
  | Call_get_tweets 's str str nat nat
  | Call_predict_sentiment str "'x pyobj option" "'x pyobj option" "str list"
  | St_write str "str list"
  | St_title str
  | St_markdown str bool
  | St_tabs "str list"
  | St_text_area str str
  | St_text_input str str str
  | St_button str
  | St_spinner str
  | St_link_button str str
  | St_success str
  | St_info str
  | St_warning str
  | St_error str

text \<open>
  A piece of the program is run to an outcome, a value or the exception that leaves it,
  together with the events it has logged.
\<close>

type_synonym ('a, 'x, 's) run = "(exn + 'a) \<times> ('x, 's) event list"

definition ret :: "'a \<Rightarrow> ('a, 'x, 's) run" where
  "ret x = (Inr x, [])"

definition emit :: "('x, 's) event \<Rightarrow> (unit, 'x, 's) run" where
  "emit ev = (Inr (), [ev])"

definition call :: "('x, 's) event \<Rightarrow> exn + 'a \<Rightarrow> ('a, 'x, 's) run" where
  \<comment> \<open>a call that is logged, with its outcome\<close>
  "call ev outcome = (outcome, [ev])"

definition andthen :: "('a, 'x, 's) run \<Rightarrow> ('a \<Rightarrow> ('b, 'x, 's) run) \<Rightarrow> ('b, 'x, 's) run" where
  \<comment> \<open>one statement after the other: an exception of the first skips the second\<close>
  "andthen m f =
     (case m of
        (Inl e, evs) \<Rightarrow> (Inl e, evs)
      | (Inr x, evs) \<Rightarrow> (case f x of (r, evs') \<Rightarrow> (r, evs @ evs')))"

definition try_except :: "('a, 'x, 's) run \<Rightarrow> (exn \<Rightarrow> ('a, 'x, 's) run) \<Rightarrow> ('a, 'x, 's) run" where
  \<comment> \<open>\<open>try: ... except Exception as e: ...\<close>\<close>
  "try_except m handler =
     (case m of
        (Inl e, evs) \<Rightarrow> (case handler e of (r, evs') \<Rightarrow> (r, evs @ evs'))
      | (Inr x, evs) \<Rightarrow> (Inr x, evs))"

section \<open>Loading\<close>

text \<open>
  The three loaders carry the decorator \<open>st.cache_resource\<close>, which keeps what a call
  has returned and hands it out again in later runs of the script. A run is modelled
  with the bodies executed, as in the first run. Every exception of the model is an
  instance of \<open>Exception\<close>, so \<open>except Exception\<close> catches each of them.
\<close>

definition load_stopwords :: "('x, 's) env \<Rightarrow> (str list, 'x, 's) run" where
  "load_stopwords env =
     andthen (emit Call_load_stopwords) (\<lambda>_.
     andthen (call (Call_nltk_download (py ''stopwords'')) (nltk_download env (py ''stopwords''))) (\<lambda>_.
     call (Call_stopwords_words (py ''english'')) (stopwords_words env (py ''english''))))"

definition model_path :: str where
  "model_path = py ''/mount/src/tweet_analyzer/model.pkl''"

definition vectorizer_path :: str where
  "vectorizer_path = py ''/mount/src/tweet_analyzer/vectorizer.pkl''"

definition load_model_and_vectorizer ::
  "('x, 's) env \<Rightarrow> ('x pyobj option \<times> 'x pyobj option, 'x, 's) run" where
  "load_model_and_vectorizer env =
     andthen (emit Call_load_model_and_vectorizer) (\<lambda>_.
     try_except
       (andthen (call (Call_open model_path) (open_rb env model_path)) (\<lambda>model_file.
        andthen (call (Call_pickle_load model_file) (pickle_load env model_file)) (\<lambda>model.
        andthen (call (Call_open vectorizer_path) (open_rb env vectorizer_path)) (\<lambda>vectorizer_file.
        andthen (call (Call_pickle_load vectorizer_file) (pickle_load env vectorizer_file)) (\<lambda>vectorizer.
        ret (Some model, Some vectorizer))))))
       (\<lambda>e.
        andthen (emit (St_error (py ''Failed to load model files: '' @ exn_str e))) (\<lambda>_.
        ret (None, None))))"

section \<open>The scraper\<close>

definition working_instances :: "str list" where
  "working_instances =
     [py ''https://nitter.net'', py ''https://nitter.it'',
      py ''https://nitter.domain.glass'', py ''https://nitter.poast.org'']"

definition tweets_entry :: "response \<Rightarrow> tweet list option" where
  \<comment> \<open>\<open>r and 'tweets' in r\<close> holds when the result is not \<open>None\<close>, and then the
      result is \<open>r['tweets']\<close>; an empty dictionary is falsy as \<open>None\<close> is\<close>
  "tweets_entry r =
     (case r of
        NoneResponse \<Rightarrow> None
      | DictResponse d \<Rightarrow> (if d \<noteq> [] then map_of d (py ''tweets'') else None))"

text \<open>
  The body of the loop of lines 40 to 53 for one instance. Its result is the scraper that
  line 51 returns from inside the loop, or \<open>None\<close> when the loop is to go on.
\<close>

definition attempt :: "('x, 's) env \<Rightarrow> str \<Rightarrow> ('s option, 'x, 's) run" where
  "attempt env instance =
     try_except
       (andthen (call (Call_Nitter 1 False (Some instance)) (Nitter env 1 False (Some instance)))
          (\<lambda>scraper.
        andthen (call (Call_get_tweets scraper (py ''twitter'') (py ''user'') 1 1)
                   (get_tweets env scraper (py ''twitter'') (py ''user'') 1 1))
          (\<lambda>test.
        if tweets_entry test \<noteq> None
        then andthen (emit (St_success (py ''Connected to Nitter instance: '' @ instance)))
               (\<lambda>_. ret (Some scraper))
        else ret None)))
       (\<lambda>e. ret None)"

text \<open>The loop over the instances that are left; \<open>None\<close> when it runs to its end.\<close>

fun try_instances :: "('x, 's) env \<Rightarrow> str list \<Rightarrow> ('s option, 'x, 's) run" where
  "try_instances env [] = ret None"
| "try_instances env (instance # rest) =
     andthen (attempt env instance) (\<lambda>returned.
       case returned of
         Some scraper \<Rightarrow> ret (Some scraper)
       | None \<Rightarrow> try_instances env rest)"

definition initialize_scraper :: "('x, 's) env \<Rightarrow> ('s option, 'x, 's) run" where
  "initialize_scraper env =
     andthen (emit Call_initialize_scraper) (\<lambda>_.
     try_except
       (andthen (try_instances env working_instances) (\<lambda>returned.
          case returned of
            Some scraper \<Rightarrow> ret (Some scraper)
          | None \<Rightarrow>
              andthen (call (Call_Nitter 1 True None) (Nitter env 1 True None)) (\<lambda>scraper.
              andthen (emit (St_warning (py ''Using fallback mode with instance check disabled'')))
                (\<lambda>_. ret (Some scraper)))))
       (\<lambda>e.
        andthen (emit (St_error (py ''Scraper initialization failed: '' @ exn_str e))) (\<lambda>_.
        ret None)))"

section \<open>The script\<close>

definition eval :: "exn + 'a \<Rightarrow> ('a, 'x, 's) run" where
  \<comment> \<open>an expression that is evaluated without a logged call\<close>
  "eval outcome = (outcome, [])"

fun decimal :: "nat \<Rightarrow> str" where
  \<comment> \<open>an integer in an f-string\<close>
  "decimal n = (if n < 10 then [48 + n] else decimal (n div 10) @ [48 + n mod 10])"

declare decimal.simps [simp del]

definition tweet_text_of :: "tweet \<Rightarrow> exn + str" where
  \<comment> \<open>\<open>tweet['text']\<close>\<close>
  "tweet_text_of tweet =
     (case map_of tweet (py ''text'') of
        None \<Rightarrow> Inl (KeyError (quoted (py ''text'')))
      | Some t \<Rightarrow> Inr t)"

definition unavailable_message :: str where
  \<open>unavailable_message = py (''\<newline>'' @
       ''            Twitter scraping service is currently unavailable. \<newline>'' @
       ''            Possible reasons:\<newline>'' @
       ''            - All Nitter instances are down\<newline>'' @
       ''            - Twitter has blocked Nitter access\<newline>'' @
       ''            - Network restrictions\<newline>'' @
       ''            \<newline>'' @
       ''            Please try:\<newline>'' @
       ''            1. Using text analysis instead\<newline>'' @
       ''            2. Checking Nitter status\<newline>'' @
       ''            3. Coming back later\<newline>'' @
       ''            '')\<close>

definition troubleshooting_tips :: str where
  \<open>troubleshooting_tips = py (''\<newline>'' @
       ''                        Troubleshooting tips:\<newline>'' @
       ''                        1. Try a different username\<newline>'' @
       ''                        2. Wait a few minutes and retry\<newline>'' @
       ''                        3. The account might be suspended\<newline>'' @
       ''                        4. Nitter instances may be overloaded\<newline>'' @
       ''                        '')\<close>

definition username_help :: str where
  "username_help = py ''Without @ symbol. Note: Private accounts won'' @ [39] @ py ''t work''"

text \<open>Lines 85 to 95: the page header, the three loading steps and the two tabs.\<close>

definition main_setup ::
  "('x, 's) env \<Rightarrow> (str list \<times> 'x pyobj option \<times> 'x pyobj option \<times> 's option, 'x, 's) run" where
  "main_setup env =
     andthen (call (Call_os_listdir (py ''/mount/src/tweet_analyzer''))
                (os_listdir env (py ''/mount/src/tweet_analyzer''))) (\<lambda>files.
     andthen (emit (St_write (py ''Files in directory:'') files)) (\<lambda>_.
     andthen (emit (St_title (py ''Twitter Sentiment Analysis '' @ [128038]))) (\<lambda>_.
     andthen (emit (St_markdown (py ''Analyze text or recent tweets from public accounts'') False)) (\<lambda>_.
     andthen (load_stopwords env) (\<lambda>stop_words.
     andthen (load_model_and_vectorizer env) (\<lambda>(model, vectorizer).
     andthen (initialize_scraper env) (\<lambda>scraper.
     andthen (emit (St_tabs [[128292] @ py '' Analyze Text'', [128038] @ py '' Analyze Tweets''])) (\<lambda>_.
     ret (stop_words, model, vectorizer, scraper)))))))))"

text \<open>Lines 97 to 104, the block of the first tab.\<close>

definition main_tab1 ::
  "('x, 's) env \<Rightarrow> 'x pyobj option \<Rightarrow> 'x pyobj option \<Rightarrow> str list \<Rightarrow> (unit, 'x, 's) run" where
  "main_tab1 env model vectorizer stop_words =
     andthen (emit (St_text_area (py ''Enter text to analyze:'') (py ''Type your text here...''))) (\<lambda>_.
     let text_input = st_text_area env in
     andthen (emit (St_button (py ''Analyze Sentiment''))) (\<lambda>_.
     if st_button env (py ''Analyze Sentiment'') then
       if str_strip text_input \<noteq> [] then
         andthen (call (Call_predict_sentiment text_input model vectorizer stop_words)
                    (predict_sentiment text_input model vectorizer stop_words)) (\<lambda>sentiment.
         emit (St_markdown (create_card text_input sentiment) True))
       else emit (St_warning (py ''Please enter some text to analyze''))
     else ret ()))"

text \<open>Lines 142 to 145, the loop over the tweets that are left.\<close>

fun for_tweets ::
  "'x pyobj option \<Rightarrow> 'x pyobj option \<Rightarrow> str list \<Rightarrow> tweet list \<Rightarrow> (unit, 'x, 's) run" where
  "for_tweets model vectorizer stop_words [] = ret ()"
| "for_tweets model vectorizer stop_words (tweet # rest) =
     andthen (eval (tweet_text_of tweet)) (\<lambda>tweet_text.
     andthen (call (Call_predict_sentiment tweet_text model vectorizer stop_words)
                (predict_sentiment tweet_text model vectorizer stop_words)) (\<lambda>sentiment.
     andthen (emit (St_markdown (create_card tweet_text sentiment) True)) (\<lambda>_.
     for_tweets model vectorizer stop_words rest)))"

text \<open>Lines 106 to 159, the block of the second tab.\<close>

definition main_tab2 ::
  "('x, 's) env \<Rightarrow> 's option \<Rightarrow> 'x pyobj option \<Rightarrow> 'x pyobj option \<Rightarrow> str list \<Rightarrow>
   (unit, 'x, 's) run" where
  "main_tab2 env scraper model vectorizer stop_words =
     (case scraper of
        None \<Rightarrow>
          andthen (emit (St_error unavailable_message)) (\<lambda>_.
          emit (St_link_button (py ''Check Nitter Status'')
                  (py ''https://github.com/zedeus/nitter/wiki/Instances'')))
      | Some the_scraper \<Rightarrow>
          andthen (emit (St_text_input (py ''Enter Twitter username:'') (py ''elonmusk'') username_help))
            (\<lambda>_.
          let username = st_text_input env in
          andthen (emit (St_button (py ''Fetch & Analyze Tweets''))) (\<lambda>_.
          if st_button env (py ''Fetch & Analyze Tweets'') then
            if \<not> (str_strip username \<noteq> []) then emit (St_warning (py ''Please enter a username''))
            else
              try_except
                (andthen (emit (St_spinner (py ''Fetching tweets from @'' @ username @ py ''...''))) (\<lambda>_.
                 andthen (call (Call_get_tweets the_scraper username (py ''user'') 5 3)
                            (get_tweets env the_scraper username (py ''user'') 5 3)) (\<lambda>tweets_data.
                 case tweets_entry tweets_data of
                   Some tweets \<Rightarrow>
                     if tweets \<noteq> [] then
                       andthen (emit (St_success (py ''Found '' @ decimal (length tweets)
                                  @ py '' recent tweets''))) (\<lambda>_.
                       for_tweets model vectorizer stop_words tweets)
                     else emit (St_warning
                            (py ''No public tweets found. Account may be private or have no tweets.''))
                 | None \<Rightarrow> emit (St_error (py ''Received unexpected response from Nitter'')))))
                (\<lambda>e.
                 andthen (emit (St_error (py ''Error fetching tweets: '' @ exn_str e))) (\<lambda>_.
                 emit (St_info troubleshooting_tips)))
          else ret ())))"

definition main :: "('x, 's) env \<Rightarrow> (unit, 'x, 's) run" where
  "main env =
     andthen (main_setup env) (\<lambda>(stop_words, model, vectorizer, scraper).
     andthen (main_tab1 env model vectorizer stop_words) (\<lambda>_.
     main_tab2 env scraper model vectorizer stop_words))"

section \<open>What a log shows\<close>

text \<open>
  Three readings of a log: the instances for which a scraper was constructed, the
  requests sent through \<open>get_tweets\<close> (term, mode, number, max_retries), and the cards
  put on the page (the markdown with \<open>unsafe_allow_html=True\<close>).
\<close>

definition instance_of :: "('x, 's) event \<Rightarrow> str list" where
  "instance_of ev =
     (case ev of Call_Nitter log_level skip_instance_check (Some instance) \<Rightarrow> [instance] | _ \<Rightarrow> [])"

definition instances_tried :: "('x, 's) event list \<Rightarrow> str list" where
  "instances_tried evs = concat (map instance_of evs)"

definition request_of :: "('x, 's) event \<Rightarrow> (str \<times> str \<times> nat \<times> nat) list" where
  "request_of ev =
     (case ev of
        Call_get_tweets scraper term mode number max_retries \<Rightarrow> [(term, mode, number, max_retries)]
      | _ \<Rightarrow> [])"

definition requests :: "('x, 's) event list \<Rightarrow> (str \<times> str \<times> nat \<times> nat) list" where
  "requests evs = concat (map request_of evs)"

definition card_of :: "('x, 's) event \<Rightarrow> str list" where
  "card_of ev = (case ev of St_markdown html True \<Rightarrow> [html] | _ \<Rightarrow> [])"

definition rendered :: "('x, 's) event list \<Rightarrow> str list" where
  "rendered evs = concat (map card_of evs)"

text \<open>
  An attempt on an instance fails when the constructor raises, when the test request
  raises, or when the answer has no tweets: the three ways in which the body of the
  loop of \<open>initialize_scraper\<close> does not return.
\<close>

definition attempt_fails :: "('x, 's) env \<Rightarrow> str \<Rightarrow> bool" where
  "attempt_fails env instance =
     (case Nitter env 1 False (Some instance) of
        Inl e \<Rightarrow> True
      | Inr scraper \<Rightarrow>
          (case get_tweets env scraper (py ''twitter'') (py ''user'') 1 1 of
             Inl e \<Rightarrow> True
           | Inr test \<Rightarrow> tweets_entry test = None))"

text \<open>
  The calls into the scraping library that a log holds, constructor calls and requests,
  with all their arguments; the calls that one attempt on an instance makes, a
  constructor call and, when it returns, one test request through the scraper it has
  returned; and the instances the loop of \<open>initialize_scraper\<close> gets to, those that
  fail up to and with the first that does not.
\<close>

definition scraper_call :: "('x, 's) event \<Rightarrow> bool" where
  "scraper_call ev =
     (case ev of
        Call_Nitter log_level skip_instance_check instance \<Rightarrow> True
      | Call_get_tweets scraper term mode amount max_retries \<Rightarrow> True
      | _ \<Rightarrow> False)"

definition scraper_calls :: "('x, 's) event list \<Rightarrow> ('x, 's) event list" where
  "scraper_calls evs = filter scraper_call evs"

definition attempt_calls :: "('x, 's) env \<Rightarrow> str \<Rightarrow> ('x, 's) event list" where
  "attempt_calls env instance =
     Call_Nitter 1 False (Some instance) #
     (case Nitter env 1 False (Some instance) of
        Inl e \<Rightarrow> []
      | Inr scraper \<Rightarrow> [Call_get_tweets scraper (py ''twitter'') (py ''user'') 1 1])"

definition reached :: "('x, 's) env \<Rightarrow> str list \<Rightarrow> str list" where
  "reached env instances =
     (case dropWhile (attempt_fails env) instances of
        [] \<Rightarrow> instances
      | instance # rest \<Rightarrow> takeWhile (attempt_fails env) instances @ [instance])"

text \<open>
  What the body of the loop over the tweets makes of one tweet: its card, or the
  exception that reading its text or classifying it raises.
\<close>

definition tweet_card ::
  "'x pyobj option \<Rightarrow> 'x pyobj option \<Rightarrow> str list \<Rightarrow> tweet \<Rightarrow> exn + str" where
  "tweet_card model vectorizer stop_words tweet =
     (case tweet_text_of tweet of
        Inl e \<Rightarrow> Inl e
      | Inr tweet_text \<Rightarrow>
          (case predict_sentiment tweet_text model vectorizer stop_words of
             Inl e \<Rightarrow> Inl e
           | Inr sentiment \<Rightarrow> Inr (create_card tweet_text sentiment)))"

section \<open>\<open>predict_sentiment\<close> on a store of objects\<close>

text \<open>
  The stopword list, the model and the vectorizer are objects that the caller shares
  with the cache of the loaders, so whether \<open>predict_sentiment\<close> changes them is a
  question about the store. The store keeps the objects by kind: strings, lists of
  strings (a list holds its strings by value, strings being immutable), the objects that
  are \<open>None\<close> or an instance of an unpickled class, feature matrices and label arrays.
  A reference is an index into its component.

  An instance is its class and its state. A method of a class gets the state of the
  receiver and the argument, and gives back its outcome and the state in which it leaves
  the receiver: a method may change the object it is called on. What the code of
  \<open>predict_sentiment\<close> itself does is to build new objects (\<open>re.sub\<close>, \<open>lower\<close>,
  \<open>split\<close>, the list comprehension, \<open>join\<close>, the list display \<open>[text]\<close>) and to
  rebind its local name \<open>text\<close>.
\<close>

type_synonym ref = nat

record ('o, 'x) pyclass =
  name_of_class :: str
  predict_method :: "('o \<Rightarrow> 'x \<Rightarrow> (exn + label list) \<times> 'o) option"
  transform_method :: "('o \<Rightarrow> str list \<Rightarrow> (exn + 'x) \<times> 'o) option"

type_synonym ('o, 'x) py_instance = "('o, 'x) pyclass \<times> 'o"

record ('o, 'x) store =
  strs :: "str list"
  lists :: "str list list"
  objs :: "('o, 'x) py_instance option list"
  matrices :: "'x list"
  arrays :: "label list list"

definition new_str :: "('o, 'x) store \<Rightarrow> str \<Rightarrow> ('o, 'x) store \<times> ref" where
  "new_str h s = (h\<lparr>strs := strs h @ [s]\<rparr>, length (strs h))"

definition new_list :: "('o, 'x) store \<Rightarrow> str list \<Rightarrow> ('o, 'x) store \<times> ref" where
  "new_list h l = (h\<lparr>lists := lists h @ [l]\<rparr>, length (lists h))"

definition new_matrix :: "('o, 'x) store \<Rightarrow> 'x \<Rightarrow> ('o, 'x) store \<times> ref" where
  "new_matrix h X = (h\<lparr>matrices := matrices h @ [X]\<rparr>, length (matrices h))"

definition new_array :: "('o, 'x) store \<Rightarrow> label list \<Rightarrow> ('o, 'x) store \<times> ref" where
  "new_array h a = (h\<lparr>arrays := arrays h @ [a]\<rparr>, length (arrays h))"

text \<open>Lines 68 to 71 on the store: the new store and what \<open>text\<close> refers to at the end.\<close>

definition clean_text_store ::
  "('o, 'x) store \<Rightarrow> ref \<Rightarrow> ref \<Rightarrow> ('o, 'x) store \<times> ref" where
  "clean_text_store h text stop_words =
     (let (h, text) = new_str h (re_sub_non_letters (py '' '') (strs h ! text));
          (h, lowered) = new_str h (str_lower (strs h ! text));
          (h, text) = new_list h (str_split (strs h ! lowered));
          (h, text) = new_list h
             (filter (\<lambda>word. word \<notin> set (lists h ! stop_words)) (lists h ! text));
          (h, text) = new_str h (str_join (py '' '') (lists h ! text))
      in (h, text))"

text \<open>
  Line 72 on the store. The two attributes are looked up before any call; the state of a
  receiver is read when its method is called, so that \<open>predict\<close> sees what
  \<open>transform\<close> has left when both names refer to one object.
\<close>

definition classify_store ::
  "('o, 'x) store \<Rightarrow> ref \<Rightarrow> ref \<Rightarrow> ref \<Rightarrow> (exn + ref) \<times> ('o, 'x) store" where
  "classify_store h text model vectorizer =
     (case objs h ! model of
           None \<Rightarrow> (Inl (none_has_no_attribute ''predict''), h)
         | Some (model_class, model_state) \<Rightarrow>
      (case predict_method model_class of
           None \<Rightarrow> (Inl (has_no_attribute (name_of_class model_class) ''predict''), h)
         | Some model_predict \<Rightarrow>
      (case objs h ! vectorizer of
           None \<Rightarrow> (Inl (none_has_no_attribute ''transform''), h)
         | Some (vectorizer_class, vectorizer_state) \<Rightarrow>
      (case transform_method vectorizer_class of
           None \<Rightarrow> (Inl (has_no_attribute (name_of_class vectorizer_class) ''transform''), h)
         | Some vectorizer_transform \<Rightarrow>
      (let (h, documents) = new_list h [strs h ! text];
           (outcome, vectorizer_state) = vectorizer_transform vectorizer_state (lists h ! documents);
           h = h\<lparr>objs := (objs h)[vectorizer := Some (vectorizer_class, vectorizer_state)]\<rparr>
       in case outcome of
            Inl e \<Rightarrow> (Inl e, h)
          | Inr X \<Rightarrow>
      (let (h, features) = new_matrix h X;
           model_state = (if model = vectorizer then vectorizer_state else model_state);
           (outcome, model_state) = model_predict model_state (matrices h ! features);
           h = h\<lparr>objs := (objs h)[model := Some (model_class, model_state)]\<rparr>
       in case outcome of
            Inl e \<Rightarrow> (Inl e, h)
          | Inr ys \<Rightarrow>
      (let (h, labels) = new_array h ys
       in case arrays h ! labels of
            [] \<Rightarrow> (Inl index_out_of_bounds, h)
          | y # _ \<Rightarrow>
      (case y of
            Inl e \<Rightarrow> (Inl e, h)
          | Inr is_zero \<Rightarrow>
      (let (h, result) = new_str h (if is_zero then py ''Negative'' else py ''Positive'')
       in (Inr result, h))))))))))"

definition predict_sentiment_store ::
  "('o, 'x) store \<Rightarrow> ref \<Rightarrow> ref \<Rightarrow> ref \<Rightarrow> ref \<Rightarrow> (exn + ref) \<times> ('o, 'x) store" where
  "predict_sentiment_store h text model vectorizer stop_words =
     (let (h, text) = clean_text_store h text stop_words
      in classify_store h text model vectorizer)"




definition view :: "('o, 'x) py_instance \<Rightarrow> 'x pyobj" where
  \<comment> \<open>an instance in its present state, as an object with methods that answer\<close>
  "view ob =
     (case ob of (cls, state) \<Rightarrow>
        \<lparr>class_name = name_of_class cls,
         predict = map_option (\<lambda>method X. fst (method state X)) (predict_method cls),
         transform = map_option (\<lambda>method documents. fst (method state documents))
                       (transform_method cls)\<rparr>)"

section \<open>A small model and vectorizer\<close>

text \<open>
  Objects for concrete runs. The vectorizer counts the characters of each document, the
  model gives label 0 to a document of fewer than five characters and label 1 to the
  others. Each lacks the method of the other.
\<close>

definition toy_vectorizer :: "nat list pyobj" where
  "toy_vectorizer =
     \<lparr>class_name = py ''ToyVectorizer'',
      predict = None,
      transform = Some (\<lambda>documents. Inr (map length documents))\<rparr>"

definition toy_model :: "nat list pyobj" where
  "toy_model =
     \<lparr>class_name = py ''ToyModel'',
      predict = Some (\<lambda>X. Inr (map (\<lambda>n. int_label (if n < 5 then 0 else 1)) X)),
      transform = None\<rparr>"






section \<open>Concrete environments\<close>

text \<open>
  A run in which nothing outside works: the model files cannot be opened and no Nitter
  instance can be reached. The user has typed \<open>good\<close> into the text area and clicked
  \<open>Analyze Sentiment\<close>.
\<close>

definition env_offline :: "(nat list, nat) env" where
  "env_offline =
     \<lparr>os_listdir = (\<lambda>path. Inr [py ''app.py'']),
      nltk_download = (\<lambda>name. Inr True),
      stopwords_words = (\<lambda>language. Inr [py ''i'', py ''this'']),
      open_rb = (\<lambda>path. Inl (Exception (py ''No such file or directory''))),
      pickle_load = (\<lambda>file. if file = [0] then Inr toy_model else Inr toy_vectorizer),
      Nitter = (\<lambda>log_level skip_instance_check instance. Inl (Exception (py ''unreachable''))),
      get_tweets = (\<lambda>scraper term mode number max_retries. Inl (Exception (py ''unreachable''))),
      st_text_area = py ''good'',
      st_text_input = [],
      st_button = (\<lambda>label. label = py ''Analyze Sentiment'')\<rparr>"

text \<open>The same run with both files in place: the model file holds the toy model.\<close>

definition env_loaded :: "(nat list, nat) env" where
  "env_loaded = env_offline\<lparr>open_rb := (\<lambda>path. Inr (if path = model_path then [0] else [1]))\<rparr>"

text \<open>
  A network in which the first instance cannot be reached and every other one answers;
  the scraper of an instance is the length of its address. The account \<open>nasa\<close> has two
  tweets, and the user has asked for them.
\<close>

definition two_tweets :: "tweet list" where
  "two_tweets = [[(py ''text'', py ''good morning'')], [(py ''text'', py ''bad'')]]"

definition env_second_instance :: "(nat list, nat) env" where
  "env_second_instance =
     env_offline
       \<lparr>Nitter := (\<lambda>log_level skip_instance_check instance.
            case instance of
              None \<Rightarrow> Inr 0
            | Some address \<Rightarrow>
                if address = py ''https://nitter.net'' then Inl (Exception (py ''unreachable''))
                else Inr (length address)),
        get_tweets := (\<lambda>scraper term mode number max_retries.
            Inr (DictResponse [(py ''tweets'', take number two_tweets)])),
        st_text_input := py ''nasa'',
        st_button := (\<lambda>label. label = py ''Fetch & Analyze Tweets'')\<rparr>"

definition env_second_instance_loaded :: "(nat list, nat) env" where
  "env_second_instance_loaded =
     env_second_instance\<lparr>open_rb := (\<lambda>path. Inr (if path = model_path then [0] else [1]))\<rparr>"

section \<open>The pipeline in the words of the specification\<close>

text \<open>
  The same cleaning, step by step as the specification words it: every character that is
  not an ASCII letter becomes a space; the result is lowercased; it is split on
  whitespace into its words (the maximal runs of characters that are not whitespace);
  the words of the stopword list are removed; the rest is joined with single spaces.
\<close>

definition is_ascii_letter :: "codepoint \<Rightarrow> bool" where
  "is_ascii_letter c = (c \<in> {65..90} \<union> {97..122})"

definition spec_strip_non_letters :: "str \<Rightarrow> str" where
  "spec_strip_non_letters s = map (\<lambda>c. if is_ascii_letter c then c else 32) s"

definition spec_lowercase :: "str \<Rightarrow> str" where
  "spec_lowercase s = map (\<lambda>c. if c \<in> {65..90} then c + 32 else c) s"

fun spec_words :: "str \<Rightarrow> str \<Rightarrow> str list" where
  \<comment> \<open>the first argument is the word read so far\<close>
  "spec_words w [] = (if w = [] then [] else [w])"
| "spec_words w (c # cs) =
     (if isspace c then (if w = [] then spec_words [] cs else w # spec_words [] cs)
      else spec_words (w @ [c]) cs)"

definition spec_remove_stopwords :: "str list \<Rightarrow> str list \<Rightarrow> str list" where
  \<comment> \<open>one stopword after the other, every occurrence of it\<close>
  "spec_remove_stopwords stop_words ws = fold removeAll stop_words ws"

definition spec_join_spaces :: "str list \<Rightarrow> str" where
  "spec_join_spaces ws =
     (case ws of [] \<Rightarrow> [] | w # vs \<Rightarrow> w @ concat (map (\<lambda>v. 32 # v) vs))"

definition spec_clean :: "str \<Rightarrow> str list \<Rightarrow> str" where
  "spec_clean text stop_words =
     spec_join_spaces
       (spec_remove_stopwords stop_words
          (spec_words [] (spec_lowercase (spec_strip_non_letters text))))"

definition lowercase_letter :: "codepoint \<Rightarrow> bool" where
  "lowercase_letter c = (97 \<le> c \<and> c \<le> 122)"

section \<open>Properties of the pipeline\<close>

lemma py_space: "py '' '' = [32]"
  by (simp add: py_def)

lemma re_sub_spec: "re_sub_non_letters [32] s = spec_strip_non_letters s"
  by (induction s)
    (auto simp: spec_strip_non_letters_def matches_non_letter_def is_ascii_letter_def)

lemma str_lower_spec: "str_lower s = spec_lowercase s"
  by (simp add: str_lower_def spec_lowercase_def lower_char_def)

declare str_split.simps [simp del]

lemma str_split_Nil: "str_split [] = []"
  by (simp add: str_split.simps)

lemma str_split_space: "isspace c \<Longrightarrow> str_split (c # cs) = str_split cs"
  by (simp add: str_split.simps [of "c # cs"] str_split.simps [of cs])

lemma str_split_word:
  "\<not> isspace c \<Longrightarrow>
   str_split (c # cs) =
     (c # takeWhile (\<lambda>x. \<not> isspace x) cs) # str_split (dropWhile (\<lambda>x. \<not> isspace x) cs)"
  by (simp add: str_split.simps [of "c # cs"])

lemma spec_words_split:
  "spec_words w s =
     (if w = [] then str_split s
      else (w @ takeWhile (\<lambda>x. \<not> isspace x) s) # str_split (dropWhile (\<lambda>x. \<not> isspace x) s))"
proof (induction s arbitrary: w)
  case Nil
  then show ?case by (simp add: str_split_Nil)
next
  case (Cons c cs)
  show ?case
  proof (cases "isspace c")
    case True
    then show ?thesis by (simp add: Cons.IH str_split_space)
  next
    case False
    then show ?thesis by (simp add: Cons.IH str_split_word)
  qed
qed

lemma str_split_spec: "str_split s = spec_words [] s"
  by (simp add: spec_words_split)

lemma str_join_spec: "str_join [32] ws = spec_join_spaces ws"
  by (induction "[32::nat]" ws rule: str_join.induct) (simp_all add: spec_join_spaces_def)

lemma filter_spec: "filter (\<lambda>word. word \<notin> set sw) ws = spec_remove_stopwords sw ws"
  unfolding spec_remove_stopwords_def
proof (induction sw arbitrary: ws)
  case Nil
  then show ?case by simp
next
  case (Cons a sw)
  have "fold removeAll sw (removeAll a ws) = filter (\<lambda>word. word \<notin> set sw) (removeAll a ws)"
    by (simp add: Cons.IH)
  also have "\<dots> = filter (\<lambda>word. word \<notin> set (a # sw)) ws"
    by (induction ws) auto
  finally show ?case by simp
qed

lemma clean_text_spec: "clean_text text sw = spec_clean text sw"
  by (simp add: clean_text_def spec_clean_def py_space re_sub_spec str_lower_spec
      str_split_spec str_join_spec filter_spec)

lemma isspace_32: "isspace 32"
  by (simp add: isspace_def)

lemma lowercase_not_space: "lowercase_letter c \<Longrightarrow> \<not> isspace c"
  by (auto simp: lowercase_letter_def isspace_def)

lemma re_sub_lower_chars:
  "c \<in> set (str_lower (re_sub_non_letters [32] s)) \<Longrightarrow> lowercase_letter c \<or> c = 32"
  by (induction s)
    (auto simp: str_lower_def lower_char_def matches_non_letter_def lowercase_letter_def
      split: if_splits)

lemma str_split_words:
  "w \<in> set (str_split s) \<Longrightarrow> w \<noteq> [] \<and> (\<forall>c\<in>set w. \<not> isspace c \<and> c \<in> set s)"
proof (induction s arbitrary: w rule: str_split.induct)
  case (1 s)
  show ?case
  proof (cases "dropWhile isspace s")
    case Nil
    with "1.prems" show ?thesis by (simp add: str_split.simps [of s])
  next
    case (Cons c cs)
    have sub: "set (dropWhile isspace s) \<subseteq> set s"
      by (rule set_dropWhileD [THEN subsetI])
    have c: "\<not> isspace c"
      using Cons hd_dropWhile [of isspace s] by auto
    from "1.prems" Cons
    consider "w = c # takeWhile (\<lambda>x. \<not> isspace x) cs"
      | "w \<in> set (str_split (dropWhile (\<lambda>x. \<not> isspace x) cs))"
      by (auto simp: str_split.simps [of s])
    then show ?thesis
    proof cases
      case 1
      have "\<forall>x\<in>set (takeWhile (\<lambda>x. \<not> isspace x) cs). \<not> isspace x \<and> x \<in> set cs"
        by (auto dest: set_takeWhileD)
      with 1 c sub Cons show ?thesis by auto
    next
      case 2
      from "1.IH" [OF Cons 2]
      have "w \<noteq> []" and "\<forall>x\<in>set w. \<not> isspace x \<and> x \<in> set (dropWhile (\<lambda>x. \<not> isspace x) cs)"
        by auto
      moreover have "set (dropWhile (\<lambda>x. \<not> isspace x) cs) \<subseteq> set cs"
        by (rule set_dropWhileD [THEN subsetI])
      ultimately show ?thesis using sub Cons by auto
    qed
  qed
qed

lemma re_sub_id:
  "\<forall>c\<in>set s. lowercase_letter c \<or> c = 32 \<Longrightarrow> re_sub_non_letters [32] s = s"
  by (induction s) (auto simp: matches_non_letter_def lowercase_letter_def)

lemma str_lower_id:
  "\<forall>c\<in>set s. lowercase_letter c \<or> c = 32 \<Longrightarrow> str_lower s = s"
  by (induction s) (auto simp: str_lower_def lower_char_def lowercase_letter_def)

lemma str_join_chars:
  "c \<in> set (str_join [32] ws) \<Longrightarrow> c = 32 \<or> (\<exists>w\<in>set ws. c \<in> set w)"
  by (induction "[32::nat]" ws rule: str_join.induct) auto

lemma str_split_one:
  assumes "w \<noteq> []" and "\<forall>c\<in>set w. \<not> isspace c"
  shows "str_split w = [w]"
proof -
  from assms obtain c cs where w: "w = c # cs" by (cases w) auto
  with assms have c: "\<not> isspace c" and cs: "\<forall>x\<in>set cs. \<not> isspace x" by auto
  have d: "dropWhile (\<lambda>x. \<not> isspace x) cs = []"
    using cs by simp
  have t: "takeWhile (\<lambda>x. \<not> isspace x) cs = cs"
    using cs by simp
  have "str_split (c # cs) =
      (c # takeWhile (\<lambda>x. \<not> isspace x) cs) # str_split (dropWhile (\<lambda>x. \<not> isspace x) cs)"
    using c by (rule str_split_word)
  also have "\<dots> = [c # cs]"
    by (simp only: d t str_split_Nil)
  finally show ?thesis by (simp add: w)
qed

lemma str_split_word_space:
  assumes "w \<noteq> []" and "\<forall>c\<in>set w. \<not> isspace c" and "isspace d"
  shows "str_split (w @ d # r) = w # str_split r"
proof -
  from assms obtain c cs where w: "w = c # cs" by (cases w) auto
  with assms have c: "\<not> isspace c" and cs: "\<forall>x\<in>set cs. \<not> isspace x" by auto
  have t: "takeWhile (\<lambda>x. \<not> isspace x) (cs @ d # r) = cs"
    using cs assms(3) by (simp add: takeWhile_append2)
  have d: "dropWhile (\<lambda>x. \<not> isspace x) (cs @ d # r) = d # r"
    using cs assms(3) by (simp add: dropWhile_append2)
  show ?thesis
    using c assms(3) by (simp add: w str_split_word t d str_split_space)
qed

lemma str_split_join:
  "\<forall>w\<in>set ws. w \<noteq> [] \<and> (\<forall>c\<in>set w. \<not> isspace c) \<Longrightarrow> str_split (str_join [32] ws) = ws"
proof (induction "[32::nat]" ws rule: str_join.induct)
  case 1
  then show ?case by (simp add: str_split_Nil)
next
  case (2 w)
  then show ?case by (simp add: str_split_one)
next
  case (3 w v ws)
  then have "str_split (str_join [32] (v # ws)) = v # ws" by simp
  moreover have "str_split (w @ 32 # str_join [32] (v # ws)) = w # str_split (str_join [32] (v # ws))"
    using 3(2) by (intro str_split_word_space) (auto simp: isspace_32)
  ultimately show ?case by simp
qed

text \<open>
  Claim C10. The cleaning of lines 68 to 71 is idempotent: for every input string and
  every stopword list, cleaning the cleaned text again gives the cleaned text.
\<close>

theorem clean_text_idempotent: "clean_text (clean_text text sw) sw = clean_text text sw"
proof -
  define ws where "ws = filter (\<lambda>word. word \<notin> set sw) (str_split (str_lower (re_sub_non_letters [32] text)))"
  have out: "clean_text text sw = str_join [32] ws"
    by (simp add: clean_text_def ws_def py_def)
  have words: "\<forall>w\<in>set ws. w \<noteq> [] \<and> (\<forall>c\<in>set w. lowercase_letter c)"
  proof
    fix w assume "w \<in> set ws"
    then have "w \<in> set (str_split (str_lower (re_sub_non_letters [32] text)))"
      by (simp add: ws_def)
    from str_split_words [OF this]
    have ne: "w \<noteq> []"
      and ch: "\<forall>c\<in>set w. \<not> isspace c \<and> c \<in> set (str_lower (re_sub_non_letters [32] text))"
      by auto
    have "\<forall>c\<in>set w. lowercase_letter c"
    proof
      fix c assume "c \<in> set w"
      with ch have "\<not> isspace c" and "c \<in> set (str_lower (re_sub_non_letters [32] text))"
        by auto
      then show "lowercase_letter c"
        using re_sub_lower_chars [of c "text"] by (auto simp: isspace_32)
    qed
    with ne show "w \<noteq> [] \<and> (\<forall>c\<in>set w. lowercase_letter c)" by simp
  qed
  have chars: "\<forall>c\<in>set (str_join [32] ws). lowercase_letter c \<or> c = 32"
    using words by (auto dest!: str_join_chars)
  have kept: "filter (\<lambda>word. word \<notin> set sw) ws = ws"
    by (simp add: ws_def)
  have "str_split (str_join [32] ws) = ws"
    using words by (intro str_split_join) (auto dest: lowercase_not_space)
  then have "clean_text (str_join [32] ws) sw = str_join [32] ws"
    by (simp add: clean_text_def py_space re_sub_id [OF chars] str_lower_id [OF chars] kept)
  then show ?thesis by (simp add: out)
qed

lemma spec_clean_example:
  "spec_join_spaces
     (spec_remove_stopwords [py ''i'', py ''this'']
        (spec_words [] (spec_lowercase (spec_strip_non_letters (py ''I LOVE this, 100%!'')))))
   = py ''love''"
  by (simp add: py_def spec_join_spaces_def spec_remove_stopwords_def spec_lowercase_def
      spec_strip_non_letters_def is_ascii_letter_def isspace_def)

lemma clean_text_example:
  "clean_text (py ''I LOVE this, 100%!'') [py ''i'', py ''this''] = py ''love''"
  by (simp add: clean_text_spec spec_clean_def spec_clean_example)

theorem clean_text_idempotent_witness:
  "clean_text (clean_text (py ''I LOVE this, 100%!'') [py ''i'', py ''this'']) [py ''i'', py ''this'']
     = py ''love''"
  using clean_text_idempotent [of "py ''I LOVE this, 100%!''" "[py ''i'', py ''this'']"]
  by (simp add: clean_text_example)

section \<open>The claims about \<open>predict_sentiment\<close> and \<open>create_card\<close>\<close>

text \<open>
  Claim C1. For every input string, \<open>predict_sentiment\<close> cleans the text in this
  order: every character that is not an ASCII letter is replaced by a space, the result
  is lowercased and split on whitespace, every word of the stopword list is removed, and
  the remaining words are joined with single spaces; the text so cleaned is what is
  vectorized and classified.
\<close>

theorem cleaning_pipeline:
  "predict_sentiment text model vectorizer stop_words =
     classify
       (spec_join_spaces
          (spec_remove_stopwords stop_words
             (spec_words [] (spec_lowercase (spec_strip_non_letters text)))))
       model vectorizer"
  by (simp add: predict_sentiment_def clean_text_spec spec_clean_def)

theorem cleaning_pipeline_witness:
  "predict_sentiment (py ''I LOVE this, 100%!'') (Some toy_model) (Some toy_vectorizer)
     [py ''i'', py ''this''] = Inr (py ''Negative'')"
  using cleaning_pipeline [of "py ''I LOVE this, 100%!''" "Some toy_model" "Some toy_vectorizer"
      "[py ''i'', py ''this'']"]
  by (simp add: spec_clean_example)
     (simp add: classify_def toy_model_def toy_vectorizer_def int_label_def py_def)

lemma predict_sentiment_loaded:
  assumes "predict m = Some model_predict" and "transform v = Some vectorizer_transform"
    and "vectorizer_transform [clean_text text stop_words] = Inr X"
    and "model_predict X = Inr (Inr is_zero # ys)"
  shows "predict_sentiment text (Some m) (Some v) stop_words
     = Inr (if is_zero then py ''Negative'' else py ''Positive'')"
  using assms by (simp add: predict_sentiment_def classify_def)

lemma predict_sentiment_returns:
  "predict_sentiment text model vectorizer stop_words = Inr s \<Longrightarrow>
   s = py ''Positive'' \<or> s = py ''Negative''"
  by (auto simp: predict_sentiment_def classify_def
      split: option.splits sum.splits list.splits if_splits)

text \<open>
  Claim C2 says that \<open>predict_sentiment\<close> returns \<open>Positive\<close> or \<open>Negative\<close> for
  every text and every pair of model and vectorizer. With the pair \<open>(None, None)\<close>,
  which \<open>main\<close> passes on unchecked when loading has failed, the lookup of
  \<open>model.predict\<close> raises \<open>AttributeError\<close> and no string is returned.
\<close>

theorem predict_sentiment_none_raises:
  "predict_sentiment (py ''good'') (None :: nat list pyobj option) None [py ''i'', py ''this'']
     = Inl (none_has_no_attribute ''predict'')
   \<and> predict_sentiment (py ''good'') (None :: nat list pyobj option) None [py ''i'', py ''this'']
       \<notin> {Inr (py ''Positive''), Inr (py ''Negative'')}"
  by (simp add: predict_sentiment_def classify_def)

section \<open>Runs of the script\<close>

lemma fst_ret: "fst (ret x) = Inr x" and snd_ret: "snd (ret x) = []"
  by (simp_all add: ret_def)

lemma fst_emit: "fst (emit ev) = Inr ()" and snd_emit: "snd (emit ev) = [ev]"
  by (simp_all add: emit_def)

lemma fst_call: "fst (call ev r) = r" and snd_call: "snd (call ev r) = [ev]"
  by (simp_all add: call_def)

lemma fst_eval: "fst (eval r) = r" and snd_eval: "snd (eval r) = []"
  by (simp_all add: eval_def)

lemma fst_andthen:
  "fst (andthen m f) = (case fst m of Inl e \<Rightarrow> Inl e | Inr x \<Rightarrow> fst (f x))"
  by (simp add: andthen_def split: prod.splits sum.splits)

lemma snd_andthen:
  "snd (andthen m f) = snd m @ (case fst m of Inl e \<Rightarrow> [] | Inr x \<Rightarrow> snd (f x))"
  by (simp add: andthen_def split: prod.splits sum.splits)

lemma fst_try_except:
  "fst (try_except m h) = (case fst m of Inl e \<Rightarrow> fst (h e) | Inr x \<Rightarrow> Inr x)"
  by (simp add: try_except_def split: prod.splits sum.splits)

lemma snd_try_except:
  "snd (try_except m h) = snd m @ (case fst m of Inl e \<Rightarrow> snd (h e) | Inr x \<Rightarrow> [])"
  by (simp add: try_except_def split: prod.splits sum.splits)

lemmas run_simps = fst_ret snd_ret fst_emit snd_emit fst_call snd_call fst_eval snd_eval
  fst_andthen snd_andthen fst_try_except snd_try_except

lemma load_total: "\<exists>r. fst (load_model_and_vectorizer env) = Inr r"
  by (simp add: load_model_and_vectorizer_def run_simps split: sum.splits)

text \<open>
  Claim C3. If an exception is raised while opening or deserializing the model file or
  the vectorizer file, \<open>load_model_and_vectorizer\<close> catches it, displays an error
  message with the text of the exception, and returns the pair \<open>(None, None)\<close>; when
  all four steps succeed it returns the pair of the deserialized model and vectorizer
  and displays no error.
\<close>

theorem load_model_and_vectorizer_result:
  "(open_rb env model_path = Inr model_file \<and> pickle_load env model_file = Inr model
      \<and> open_rb env vectorizer_path = Inr vectorizer_file
      \<and> pickle_load env vectorizer_file = Inr vectorizer \<longrightarrow>
        fst (load_model_and_vectorizer env) = Inr (Some model, Some vectorizer)
        \<and> (\<forall>message. St_error message \<notin> set (snd (load_model_and_vectorizer env))))
   \<and> (open_rb env model_path = Inl e
       \<or> (\<exists>f. open_rb env model_path = Inr f \<and> pickle_load env f = Inl e)
       \<or> (\<exists>f m. open_rb env model_path = Inr f \<and> pickle_load env f = Inr m
             \<and> open_rb env vectorizer_path = Inl e)
       \<or> (\<exists>f m g. open_rb env model_path = Inr f \<and> pickle_load env f = Inr m
             \<and> open_rb env vectorizer_path = Inr g \<and> pickle_load env g = Inl e) \<longrightarrow>
        fst (load_model_and_vectorizer env) = Inr (None, None)
        \<and> last (snd (load_model_and_vectorizer env))
            = St_error (py ''Failed to load model files: '' @ exn_str e))"
  by (auto simp: load_model_and_vectorizer_def run_simps)

theorem load_model_and_vectorizer_witness:
  "fst (load_model_and_vectorizer env_loaded) = Inr (Some toy_model, Some toy_vectorizer)
   \<and> St_error (py ''Failed to load model files: No such file or directory'')
       \<notin> set (snd (load_model_and_vectorizer env_loaded))
   \<and> fst (load_model_and_vectorizer env_offline) = Inr (None, None)
   \<and> last (snd (load_model_and_vectorizer env_offline))
       = St_error (py ''Failed to load model files: No such file or directory'')"
proof -
  have ok: "open_rb env_loaded model_path = Inr [0] \<and> pickle_load env_loaded [0] = Inr toy_model
      \<and> open_rb env_loaded vectorizer_path = Inr [1]
      \<and> pickle_load env_loaded [1] = Inr toy_vectorizer"
    by (simp add: env_loaded_def env_offline_def model_path_def vectorizer_path_def py_def)
  have bad: "open_rb env_offline model_path = Inl (Exception (py ''No such file or directory''))"
    by (simp add: env_offline_def)
  have msg: "py ''Failed to load model files: '' @ exn_str (Exception (py ''No such file or directory''))
      = py ''Failed to load model files: No such file or directory''"
    by (simp add: py_def)
  from load_model_and_vectorizer_result [of env_loaded "[0]" toy_model "[1]" toy_vectorizer] ok
    load_model_and_vectorizer_result [of env_offline _ _ _ _ "Exception (py ''No such file or directory'')"]
    bad msg
  show ?thesis by simp
qed

lemma attempt_total: "\<exists>r. fst (attempt env instance) = Inr r"
  by (simp add: attempt_def run_simps split: sum.splits)

lemma try_instances_total: "\<exists>r. fst (try_instances env is) = Inr r"
proof (induction "is")
  case Nil
  then show ?case by (simp add: run_simps)
next
  case (Cons a "is")
  obtain r where "fst (attempt env a) = Inr r"
    using attempt_total by blast
  with Cons show ?case
    by (cases r) (simp_all add: run_simps)
qed

lemma initialize_scraper_total: "\<exists>r. fst (initialize_scraper env) = Inr r"
  using try_instances_total [of env working_instances]
  by (auto simp: initialize_scraper_def run_simps split: sum.splits option.splits)

lemma load_stopwords_no_predict:
  "Call_predict_sentiment t m v sw \<notin> set (snd (load_stopwords env))"
  by (simp add: load_stopwords_def run_simps split: sum.splits)

lemma load_model_no_predict:
  "Call_predict_sentiment t m v sw \<notin> set (snd (load_model_and_vectorizer env))"
  by (simp add: load_model_and_vectorizer_def run_simps split: sum.splits)

lemma attempt_no_predict:
  "Call_predict_sentiment t m v sw \<notin> set (snd (attempt env instance))"
  by (simp add: attempt_def run_simps split: sum.splits)

lemma try_instances_no_predict:
  "Call_predict_sentiment t m v sw \<notin> set (snd (try_instances env is))"
  by (induction "is") (simp_all add: run_simps attempt_no_predict split: sum.splits option.splits)

lemma initialize_scraper_no_predict:
  "Call_predict_sentiment t m v sw \<notin> set (snd (initialize_scraper env))"
  by (simp add: initialize_scraper_def run_simps try_instances_no_predict
      split: sum.splits option.splits)

lemma main_setup_no_predict:
  "Call_predict_sentiment t m v sw \<notin> set (snd (main_setup env))"
  by (simp add: main_setup_def run_simps load_stopwords_no_predict load_model_no_predict
      initialize_scraper_no_predict split: sum.splits prod.splits)

lemma load_stopwords_logged: "Call_load_stopwords \<in> set (snd (load_stopwords env))"
  by (simp add: load_stopwords_def run_simps)

lemma load_model_logged:
  "Call_load_model_and_vectorizer \<in> set (snd (load_model_and_vectorizer env))"
  by (simp add: load_model_and_vectorizer_def run_simps)

lemma main_setup_loads:
  "fst (main_setup env) = Inr r \<Longrightarrow>
   Call_load_stopwords \<in> set (snd (main_setup env))
   \<and> Call_load_model_and_vectorizer \<in> set (snd (main_setup env))"
  by (auto simp: main_setup_def run_simps load_stopwords_logged load_model_logged
      split: sum.splits prod.splits)

lemma main_log:
  "snd (main env) = snd (main_setup env) @
     (case fst (main_setup env) of
        Inl e \<Rightarrow> []
      | Inr (stop_words, model, vectorizer, scraper) \<Rightarrow>
          snd (main_tab1 env model vectorizer stop_words) @
          (case fst (main_tab1 env model vectorizer stop_words) of
             Inl e \<Rightarrow> []
           | Inr u \<Rightarrow> snd (main_tab2 env scraper model vectorizer stop_words)))"
  by (simp add: main_def run_simps split: sum.splits prod.splits)

lemma in_set_before: "x \<in> set xs \<Longrightarrow> length xs \<le> i \<Longrightarrow> \<exists>j<i. (xs @ ys) ! j = x"
  by (metis in_set_conv_nth nth_append order_less_le_trans)

text \<open>
  Claim C8. In every run of \<open>main\<close>, whatever the environment answers, a call of
  \<open>predict_sentiment\<close> at any position of the log comes after a call of
  \<open>load_stopwords\<close> and after a call of \<open>load_model_and_vectorizer\<close>.
\<close>

theorem load_before_use:
  "i < length (snd (main env)) \<and> snd (main env) ! i = Call_predict_sentiment t m v sw \<longrightarrow>
     (\<exists>j<i. snd (main env) ! j = Call_load_stopwords)
     \<and> (\<exists>k<i. snd (main env) ! k = Call_load_model_and_vectorizer)"
proof (intro impI, elim conjE)
  assume i: "i < length (snd (main env))"
    and p: "snd (main env) ! i = Call_predict_sentiment t m v sw"
  obtain rest where log: "snd (main env) = snd (main_setup env) @ rest"
    and fail: "\<And>e. fst (main_setup env) = Inl e \<Longrightarrow> rest = []"
    by (auto simp: main_log split: sum.splits)
  have after: "length (snd (main_setup env)) \<le> i"
  proof (rule ccontr)
    assume "\<not> length (snd (main_setup env)) \<le> i"
    then have "snd (main env) ! i \<in> set (snd (main_setup env))"
      by (simp add: log nth_append)
    with p main_setup_no_predict show False by metis
  qed
  with i log have "rest \<noteq> []" by auto
  with fail obtain r where "fst (main_setup env) = Inr r"
    by (cases "fst (main_setup env)") auto
  from main_setup_loads [OF this] after show
    "(\<exists>j<i. snd (main env) ! j = Call_load_stopwords)
     \<and> (\<exists>k<i. snd (main env) ! k = Call_load_model_and_vectorizer)"
    unfolding log by (auto intro: in_set_before)
qed

text \<open>
  Claim C9. When \<open>load_model_and_vectorizer\<close> has returned \<open>(None, None)\<close> and the
  user asks for the analysis of a text that is not all whitespace, \<open>main\<close> calls
  \<open>predict_sentiment\<close> with the model and the vectorizer both \<open>None\<close>; the call
  raises \<open>AttributeError\<close>, which nothing catches: it leaves \<open>main\<close>, and the call
  is the last thing the run does, so no sentiment and no message is shown.
\<close>

theorem none_fallback_unchecked:
  "os_listdir env (py ''/mount/src/tweet_analyzer'') = Inr files
   \<and> fst (load_stopwords env) = Inr stop_words
   \<and> fst (load_model_and_vectorizer env) = Inr (None, None)
   \<and> st_button env (py ''Analyze Sentiment'') \<and> str_strip (st_text_area env) \<noteq> [] \<longrightarrow>
     fst (main env) = Inl (none_has_no_attribute ''predict'')
     \<and> last (snd (main env)) = Call_predict_sentiment (st_text_area env) None None stop_words"
proof (intro impI, elim conjE)
  assume dir: "os_listdir env (py ''/mount/src/tweet_analyzer'') = Inr files"
    and sw: "fst (load_stopwords env) = Inr stop_words"
    and load: "fst (load_model_and_vectorizer env) = Inr (None, None)"
    and button: "st_button env (py ''Analyze Sentiment'')"
    and typed: "str_strip (st_text_area env) \<noteq> []"
  obtain scraper where "fst (initialize_scraper env) = Inr scraper"
    using initialize_scraper_total by blast
  with dir sw load have start: "fst (main_setup env) = Inr (stop_words, None, None, scraper)"
    by (simp add: main_setup_def run_simps)
  have raised: "fst (main_tab1 env None None stop_words) = Inl (none_has_no_attribute ''predict'')"
    using button typed
    by (simp add: main_tab1_def run_simps Let_def predict_sentiment_def classify_def)
  have tab1: "snd (main_tab1 env None None stop_words) =
      [St_text_area (py ''Enter text to analyze:'') (py ''Type your text here...''),
       St_button (py ''Analyze Sentiment''),
       Call_predict_sentiment (st_text_area env) None None stop_words]"
    using button typed
    by (simp add: main_tab1_def run_simps Let_def predict_sentiment_def classify_def)
  have "fst (main env) = Inl (none_has_no_attribute ''predict'')"
    using start raised by (simp add: main_def run_simps)
  moreover have "last (snd (main env)) = Call_predict_sentiment (st_text_area env) None None stop_words"
    using start raised tab1 by (simp add: main_log)
  ultimately show "fst (main env) = Inl (none_has_no_attribute ''predict'')
     \<and> last (snd (main env)) = Call_predict_sentiment (st_text_area env) None None stop_words"
    by simp
qed

lemma offline_setup:
  "fst (main_setup env_offline) = Inr ([py ''i'', py ''this''], None, None, None)
   \<and> length (snd (main_setup env_offline)) = 18"
  by (simp add: main_setup_def load_stopwords_def load_model_and_vectorizer_def
      initialize_scraper_def attempt_def working_instances_def run_simps env_offline_def)

lemma offline_tab1:
  "snd (main_tab1 env_offline None None [py ''i'', py ''this'']) =
      [St_text_area (py ''Enter text to analyze:'') (py ''Type your text here...''),
       St_button (py ''Analyze Sentiment''),
       Call_predict_sentiment (py ''good'') None None [py ''i'', py ''this'']]
   \<and> fst (main_tab1 env_offline None None [py ''i'', py ''this''])
       = Inl (none_has_no_attribute ''predict'')"
proof -
  have "str_strip (py ''good'') \<noteq> []"
    by (simp add: str_strip_def py_def isspace_def)
  then show ?thesis
    by (simp add: main_tab1_def run_simps Let_def predict_sentiment_def classify_def env_offline_def)
qed

lemma offline_log:
  "length (snd (main env_offline)) = 21
   \<and> snd (main env_offline) ! 20 = Call_predict_sentiment (py ''good'') None None [py ''i'', py ''this'']"
  using offline_setup offline_tab1 by (simp add: main_log nth_append)

theorem load_before_use_witness:
  "20 < length (snd (main env_offline))
   \<and> snd (main env_offline) ! 20 = Call_predict_sentiment (py ''good'') None None [py ''i'', py ''this'']
   \<and> (\<exists>j<20. snd (main env_offline) ! j = Call_load_stopwords)
   \<and> (\<exists>k<20. snd (main env_offline) ! k = Call_load_model_and_vectorizer)"
  using load_before_use [of 20 env_offline "py ''good''" None None "[py ''i'', py ''this'']"]
    offline_log by simp

theorem none_fallback_unchecked_witness:
  "fst (load_model_and_vectorizer env_offline) = Inr (None, None)
   \<and> st_button env_offline (py ''Analyze Sentiment'')
   \<and> str_strip (st_text_area env_offline) \<noteq> []
   \<and> fst (main env_offline) = Inl (none_has_no_attribute ''predict'')
   \<and> last (snd (main env_offline))
       = Call_predict_sentiment (py ''good'') None None [py ''i'', py ''this'']"
proof -
  have dir: "os_listdir env_offline (py ''/mount/src/tweet_analyzer'') = Inr [py ''app.py'']"
    by (simp add: env_offline_def)
  have sw: "fst (load_stopwords env_offline) = Inr [py ''i'', py ''this'']"
    by (simp add: load_stopwords_def run_simps env_offline_def)
  have load: "fst (load_model_and_vectorizer env_offline) = Inr (None, None)"
    by (simp add: load_model_and_vectorizer_def run_simps env_offline_def)
  have button: "st_button env_offline (py ''Analyze Sentiment'')"
    by (simp add: env_offline_def)
  have area: "st_text_area env_offline = py ''good''"
    by (simp add: env_offline_def)
  have typed: "str_strip (st_text_area env_offline) \<noteq> []"
    by (simp add: area) (simp add: str_strip_def py_def isspace_def)
  from none_fallback_unchecked [of env_offline "[py ''app.py'']" "[py ''i'', py ''this'']"]
    dir sw load button typed area
  show ?thesis by simp
qed

section \<open>Instances and requests\<close>

lemma instances_tried_append: "instances_tried (xs @ ys) = instances_tried xs @ instances_tried ys"
  by (simp add: instances_tried_def)

lemma requests_append: "requests (xs @ ys) = requests xs @ requests ys"
  by (simp add: requests_def)

lemma rendered_append: "rendered (xs @ ys) = rendered xs @ rendered ys"
  by (simp add: rendered_def)

lemma instances_tried_Nil: "instances_tried [] = []"
  and instances_tried_Cons: "instances_tried (ev # evs) = instance_of ev @ instances_tried evs"
  by (simp_all add: instances_tried_def)

lemma requests_Nil: "requests [] = []"
  and requests_Cons: "requests (ev # evs) = request_of ev @ requests evs"
  by (simp_all add: requests_def)

lemma rendered_Nil: "rendered [] = []"
  and rendered_Cons: "rendered (ev # evs) = card_of ev @ rendered evs"
  by (simp_all add: rendered_def)

lemmas log_simps = instances_tried_append requests_append rendered_append
  instances_tried_Nil instances_tried_Cons requests_Nil requests_Cons rendered_Nil rendered_Cons
  instance_of_def request_of_def card_of_def

lemma attempt_result:
  "fst (attempt env a) = Inr None \<longleftrightarrow> attempt_fails env a"
  by (auto simp: attempt_def attempt_fails_def run_simps split: sum.splits)

lemma attempt_instances: "instances_tried (snd (attempt env a)) = [a]"
  by (simp add: attempt_def run_simps log_simps split: sum.splits)

lemma attempt_requests:
  "requests (snd (attempt env a)) = [] \<or>
   requests (snd (attempt env a)) = [(py ''twitter'', py ''user'', 1, 1)]"
  by (simp add: attempt_def run_simps log_simps split: sum.splits)

lemma try_instances_log:
  "snd (try_instances env (a # is)) =
     snd (attempt env a) @ (if attempt_fails env a then snd (try_instances env is) else [])"
proof -
  obtain r where r: "fst (attempt env a) = Inr r"
    using attempt_total by blast
  show ?thesis
  proof (cases r)
    case None
    with r attempt_result [of env a] show ?thesis by (simp add: run_simps)
  next
    case (Some scraper)
    with r attempt_result [of env a] show ?thesis by (simp add: run_simps)
  qed
qed

lemma try_instances_tried:
  "instances_tried (snd (try_instances env is)) =
     (case dropWhile (attempt_fails env) is of
        [] \<Rightarrow> is
      | instance # rest \<Rightarrow> takeWhile (attempt_fails env) is @ [instance])"
proof (induction "is")
  case Nil
  then show ?case by (simp add: run_simps log_simps)
next
  case (Cons a "is")
  let ?P = "attempt_fails env"
  show ?case
  proof (cases "?P a")
    case True
    have step: "instances_tried (snd (try_instances env (a # is)))
        = a # instances_tried (snd (try_instances env is))"
      using True
      by (simp add: try_instances_log instances_tried_append attempt_instances
          del: try_instances.simps)
    have d: "dropWhile ?P (a # is) = dropWhile ?P is"
      using True by simp
    have t: "takeWhile ?P (a # is) = a # takeWhile ?P is"
      using True by simp
    show ?thesis
    proof (cases "dropWhile ?P is")
      case Nil
      have "instances_tried (snd (try_instances env is)) = is"
        using Cons.IH by (simp only: Nil list.case)
      then show ?thesis
        by (simp only: step d Nil list.case)
    next
      case (Cons b rest)
      have "instances_tried (snd (try_instances env is)) = takeWhile ?P is @ [b]"
        using Cons.IH by (simp only: Cons list.case)
      then show ?thesis
        by (simp only: step d t Cons list.case append_Cons)
    qed
  next
    case False
    then show ?thesis
      by (simp add: try_instances_log instances_tried_append attempt_instances
          del: try_instances.simps)
  qed
qed

lemma try_instances_requests:
  "\<exists>k\<le>length is. requests (snd (try_instances env is))
      = replicate k (py ''twitter'', py ''user'', 1, 1)"
proof (induction "is")
  case Nil
  then show ?case by (simp add: run_simps log_simps)
next
  case (Cons a "is")
  then obtain k where k: "k \<le> length is"
    and rest: "requests (snd (try_instances env is)) = replicate k (py ''twitter'', py ''user'', 1, 1)"
    by blast
  show ?case
  proof (cases "attempt_fails env a")
    case True
    from attempt_requests [of env a] show ?thesis
    proof
      assume "requests (snd (attempt env a)) = []"
      with True k rest show ?thesis
        by (intro exI [of _ k]) (simp add: try_instances_log requests_append del: try_instances.simps)
    next
      assume "requests (snd (attempt env a)) = [(py ''twitter'', py ''user'', 1, 1)]"
      with True k rest show ?thesis
        by (intro exI [of _ "Suc k"]) (simp add: try_instances_log requests_append del: try_instances.simps)
    qed
  next
    case False
    from attempt_requests [of env a] show ?thesis
    proof
      assume "requests (snd (attempt env a)) = []"
      with False show ?thesis
        by (intro exI [of _ 0]) (simp add: try_instances_log del: try_instances.simps)
    next
      assume "requests (snd (attempt env a)) = [(py ''twitter'', py ''user'', 1, 1)]"
      with False show ?thesis
        by (intro exI [of _ "Suc 0"]) (simp add: try_instances_log del: try_instances.simps)
    qed
  qed
qed

lemma initialize_scraper_tried:
  "instances_tried (snd (initialize_scraper env))
     = instances_tried (snd (try_instances env working_instances))"
  by (simp add: initialize_scraper_def run_simps log_simps split: sum.splits option.splits)

lemma initialize_scraper_requests:
  "requests (snd (initialize_scraper env)) = requests (snd (try_instances env working_instances))"
  by (simp add: initialize_scraper_def run_simps log_simps split: sum.splits option.splits)

lemma load_stopwords_requests: "requests (snd (load_stopwords env)) = []"
  by (simp add: load_stopwords_def run_simps log_simps split: sum.splits)

lemma load_model_requests: "requests (snd (load_model_and_vectorizer env)) = []"
  by (simp add: load_model_and_vectorizer_def run_simps log_simps split: sum.splits)

lemma main_setup_requests:
  "requests (snd (main_setup env)) = [] \<or>
   requests (snd (main_setup env)) = requests (snd (initialize_scraper env))"
  by (simp add: main_setup_def run_simps log_simps load_stopwords_requests load_model_requests
      split: sum.splits prod.splits)

lemma main_tab1_requests: "requests (snd (main_tab1 env m v sw)) = []"
  by (simp add: main_tab1_def run_simps log_simps Let_def split: sum.splits)

lemma for_tweets_requests: "requests (snd (for_tweets m v sw tweets)) = []"
  by (induction tweets) (simp_all add: run_simps log_simps split: sum.splits)

lemma main_tab2_requests:
  "requests (snd (main_tab2 env scraper m v sw)) = [] \<or>
   requests (snd (main_tab2 env scraper m v sw)) = [(st_text_input env, py ''user'', 5, 3)]"
  by (simp add: main_tab2_def run_simps log_simps Let_def for_tweets_requests
      split: sum.splits option.splits)

lemma main_requests:
  "\<exists>fetch. requests (snd (main env)) = requests (snd (main_setup env)) @ fetch
     \<and> (fetch = [] \<or> fetch = [(st_text_input env, py ''user'', 5, 3)])"
proof (cases "fst (main_setup env)")
  case (Inl e)
  then show ?thesis by (simp add: main_log)
next
  case (Inr r)
  obtain stop_words model vectorizer scraper where r: "r = (stop_words, model, vectorizer, scraper)"
    by (cases r) auto
  show ?thesis
  proof (cases "fst (main_tab1 env model vectorizer stop_words)")
    case (Inl e)
    with Inr r show ?thesis
      by (simp add: main_log requests_append main_tab1_requests)
  next
    case (Inr u)
    with \<open>fst (main_setup env) = Inr r\<close> r main_tab2_requests [of env scraper model vectorizer stop_words]
    show ?thesis
      by (auto simp: main_log requests_append main_tab1_requests)
  qed
qed

section \<open>Fetching and rendering tweets\<close>

lemma for_tweets_rendered:
  "map Inr (rendered (snd (for_tweets m v sw tweets))) =
     takeWhile (\<lambda>card. \<not> isl card) (map (tweet_card m v sw) tweets)"
proof (induction tweets)
  case Nil
  then show ?case by (simp add: run_simps log_simps)
next
  case (Cons tweet tweets)
  show ?case
  proof (cases "tweet_card m v sw tweet")
    case (Inl e)
    then show ?thesis
      by (auto simp: tweet_card_def run_simps log_simps split: sum.splits)
  next
    case (Inr html)
    then show ?thesis
      using Cons.IH
      by (auto simp: tweet_card_def run_simps log_simps split: sum.splits)
  qed
qed

lemma for_tweets_result:
  "fst (for_tweets m v sw tweets) = Inr () \<longleftrightarrow> (\<forall>tweet\<in>set tweets. \<not> isl (tweet_card m v sw tweet))"
  by (induction tweets) (auto simp: tweet_card_def run_simps split: sum.splits)

lemma attempt_rendered: "rendered (snd (attempt env a)) = []"
  by (simp add: attempt_def run_simps log_simps split: sum.splits)

lemma try_instances_rendered: "rendered (snd (try_instances env is)) = []"
  by (induction "is")
    (simp_all add: run_simps log_simps attempt_rendered split: sum.splits option.splits)

lemma main_setup_rendered: "rendered (snd (main_setup env)) = []"
  by (simp add: main_setup_def load_stopwords_def load_model_and_vectorizer_def
      initialize_scraper_def run_simps log_simps try_instances_rendered
      split: sum.splits prod.splits option.splits)

lemma main_tab1_idle:
  "\<not> st_button env (py ''Analyze Sentiment'') \<Longrightarrow>
   fst (main_tab1 env m v sw) = Inr () \<and> rendered (snd (main_tab1 env m v sw)) = []
   \<and> requests (snd (main_tab1 env m v sw)) = []"
  by (simp add: main_tab1_def run_simps log_simps Let_def)

lemma main_tab2_fetch:
  fixes env :: "('x, 's) env"
  defines "loop m v sw tweets \<equiv> (for_tweets m v sw tweets :: (unit, 'x, 's) run)"
  assumes "st_button env (py ''Fetch & Analyze Tweets'')"
    and "str_strip (st_text_input env) \<noteq> []"
    and "get_tweets env scraper (st_text_input env) (py ''user'') 5 3 = Inr response"
    and "tweets_entry response = Some tweets"
  shows "requests (snd (main_tab2 env (Some scraper) m v sw)) = [(st_text_input env, py ''user'', 5, 3)]"
    and "rendered (snd (main_tab2 env (Some scraper) m v sw)) = rendered (snd (loop m v sw tweets))"
    and "fst (main_tab2 env (Some scraper) m v sw) = Inr ()"
    and "fst (loop m v sw tweets) \<noteq> Inr () \<Longrightarrow>
         last (snd (main_tab2 env (Some scraper) m v sw)) = St_info troubleshooting_tips"
proof -
  have empty: "tweets = [] \<Longrightarrow> rendered (snd (loop m v sw tweets)) = []"
    by (simp add: loop_def run_simps log_simps)
  note defs = loop_def main_tab2_def
  show "requests (snd (main_tab2 env (Some scraper) m v sw)) = [(st_text_input env, py ''user'', 5, 3)]"
    using assms
    by (simp add: defs run_simps log_simps Let_def for_tweets_requests split: sum.splits)
  show "rendered (snd (main_tab2 env (Some scraper) m v sw)) = rendered (snd (loop m v sw tweets))"
    using assms empty
    by (simp add: defs run_simps log_simps Let_def split: sum.splits)
  show "fst (main_tab2 env (Some scraper) m v sw) = Inr ()"
    using assms
    by (simp add: defs run_simps Let_def split: sum.splits)
  show "last (snd (main_tab2 env (Some scraper) m v sw)) = St_info troubleshooting_tips"
    if "fst (loop m v sw tweets) \<noteq> Inr ()"
  proof -
    have "tweets \<noteq> []"
      using that by (auto simp: loop_def run_simps)
    with assms that show ?thesis
      by (simp add: defs run_simps Let_def split: sum.splits)
  qed
qed

lemma main_fetch:
  fixes env :: "('x, 's) env"
  assumes start: "fst (main_setup env) = Inr (stop_words, model, vectorizer, Some scraper)"
    and idle: "\<not> st_button env (py ''Analyze Sentiment'')"
    and fetch: "st_button env (py ''Fetch & Analyze Tweets'')"
      "str_strip (st_text_input env) \<noteq> []"
      "get_tweets env scraper (st_text_input env) (py ''user'') 5 3 = Inr response"
      "tweets_entry response = Some tweets"
  shows "requests (snd (main env))
          = requests (snd (main_setup env)) @ [(st_text_input env, py ''user'', 5, 3)]"
    and "map Inr (rendered (snd (main env)))
          = takeWhile (\<lambda>card. \<not> isl card) (map (tweet_card model vectorizer stop_words) tweets)"
    and "fst (main env) = Inr ()"
    and "\<exists>tweet\<in>set tweets. isl (tweet_card model vectorizer stop_words tweet) \<Longrightarrow>
         last (snd (main env)) = St_info troubleshooting_tips"
proof -
  note tab1 = main_tab1_idle [OF idle, of model vectorizer stop_words]
  note tab2 = main_tab2_fetch [OF fetch, of model vectorizer stop_words]
  show "requests (snd (main env))
          = requests (snd (main_setup env)) @ [(st_text_input env, py ''user'', 5, 3)]"
    using start tab1 tab2(1) by (simp add: main_log requests_append)
  have "rendered (snd (main env))
      = rendered (snd (for_tweets model vectorizer stop_words tweets :: (unit, 'x, 's) run))"
    using start tab1 tab2(2) by (simp add: main_log rendered_append main_setup_rendered)
  then show "map Inr (rendered (snd (main env)))
          = takeWhile (\<lambda>card. \<not> isl card) (map (tweet_card model vectorizer stop_words) tweets)"
    by (simp only: for_tweets_rendered)
  show "fst (main env) = Inr ()"
    using start tab1 tab2(3) by (simp add: main_def run_simps)
  show "last (snd (main env)) = St_info troubleshooting_tips"
    if "\<exists>tweet\<in>set tweets. isl (tweet_card model vectorizer stop_words tweet)"
  proof -
    have "fst (for_tweets model vectorizer stop_words tweets :: (unit, 'x, 's) run) \<noteq> Inr ()"
      using that by (simp add: for_tweets_result)
    from tab2(4) [OF this]
    have l: "last (snd (main_tab2 env (Some scraper) model vectorizer stop_words))
        = St_info troubleshooting_tips" .
    have ne: "snd (main_tab2 env (Some scraper) model vectorizer stop_words) \<noteq> []"
      by (simp add: main_tab2_def run_simps Let_def)
    show ?thesis
      using start tab1 l ne by (simp add: main_log)
  qed
qed

lemma second_instance_setup:
  "fst (main_setup env_second_instance) = Inr ([py ''i'', py ''this''], None, None, Some 17)"
  by (simp add: main_setup_def load_stopwords_def load_model_and_vectorizer_def
      initialize_scraper_def attempt_def working_instances_def run_simps
      env_second_instance_def env_offline_def tweets_entry_def two_tweets_def)
     (simp add: py_def)


lemma second_instance_widgets:
  "\<not> st_button env_second_instance (py ''Analyze Sentiment'')
   \<and> st_button env_second_instance (py ''Fetch & Analyze Tweets'')
   \<and> st_text_input env_second_instance = py ''nasa''
   \<and> get_tweets env_second_instance 17 (py ''nasa'') (py ''user'') 5 3
       = Inr (DictResponse [(py ''tweets'', two_tweets)])
   \<and> \<not> st_button env_second_instance_loaded (py ''Analyze Sentiment'')
   \<and> st_button env_second_instance_loaded (py ''Fetch & Analyze Tweets'')
   \<and> st_text_input env_second_instance_loaded = py ''nasa''
   \<and> get_tweets env_second_instance_loaded 17 (py ''nasa'') (py ''user'') 5 3
       = Inr (DictResponse [(py ''tweets'', two_tweets)])"
  by (simp add: env_second_instance_loaded_def env_second_instance_def env_offline_def two_tweets_def)
     (simp add: py_def)

lemma nasa_typed: "str_strip (py ''nasa'') \<noteq> []"
  by (simp add: str_strip_def py_def isspace_def)

lemma two_tweets_entry: "tweets_entry (DictResponse [(py ''tweets'', two_tweets)]) = Some two_tweets"
  by (simp add: tweets_entry_def)

lemma two_tweets_cards:
  "map (tweet_card (Some toy_model) (Some toy_vectorizer) [py ''i'', py ''this'']) two_tweets
     = [Inr (create_card (py ''good morning'') (py ''Positive'')),
        Inr (create_card (py ''bad'') (py ''Negative''))]"
proof -
  have 1: "clean_text (py ''good morning'') [py ''i'', py ''this''] = py ''good morning''"
    by (simp add: clean_text_spec spec_clean_def py_def spec_join_spaces_def
        spec_remove_stopwords_def spec_lowercase_def spec_strip_non_letters_def
        is_ascii_letter_def isspace_def)
  have 2: "clean_text (py ''bad'') [py ''i'', py ''this''] = py ''bad''"
    by (simp add: clean_text_spec spec_clean_def py_def spec_join_spaces_def
        spec_remove_stopwords_def spec_lowercase_def spec_strip_non_letters_def
        is_ascii_letter_def isspace_def)
  have t: "tweet_text_of [(py ''text'', py ''good morning'')] = Inr (py ''good morning'')"
    "tweet_text_of [(py ''text'', py ''bad'')] = Inr (py ''bad'')"
    by (simp_all add: tweet_text_of_def)
  have p: "predict_sentiment (py ''good morning'') (Some toy_model) (Some toy_vectorizer)
        [py ''i'', py ''this''] = Inr (py ''Positive'')"
    "predict_sentiment (py ''bad'') (Some toy_model) (Some toy_vectorizer)
        [py ''i'', py ''this''] = Inr (py ''Negative'')"
    by (simp_all add: predict_sentiment_def 1 2 classify_def toy_model_def toy_vectorizer_def
        int_label_def)
       (simp_all add: py_def)
  show ?thesis
    by (simp add: two_tweets_def tweet_card_def t p)
qed

lemma second_instance_facts:
  "\<not> st_button env_second_instance (py ''Analyze Sentiment'')"
  "st_button env_second_instance (py ''Fetch & Analyze Tweets'')"
  "str_strip (st_text_input env_second_instance) \<noteq> []"
  "get_tweets env_second_instance 17 (st_text_input env_second_instance) (py ''user'') 5 3
     = Inr (DictResponse [(py ''tweets'', two_tweets)])"
  using second_instance_widgets nasa_typed by simp_all


section \<open>The card\<close>

lemma card_text:
  \<open>create_card tweet_text sentiment =
     py ''\<newline>    <div style="background-color: ''
     @ (if sentiment = py ''Positive'' then py ''#4CAF50'' else py ''#F44336'')
     @ py (''; padding: 12px; border-radius: 8px; margin: 10px 0; '' @
          ''box-shadow: 0 2px 4px rgba(0,0,0,0.1)">\<newline>'' @
          ''        <h5 style="color: white; margin-top: 0;">'')
     @ sentiment
     @ py ('' Sentiment</h5>\<newline>'' @
          ''        <p style="color: white; margin-bottom: 0;">'')
     @ tweet_text
     @ py ''</p>\<newline>    </div>\<newline>    ''\<close>
  by (simp add: create_card_def card_color_def card_top_def card_heading_def card_body_def
      card_bottom_def)

lemma card_div_style:
  \<open>div_style (create_card tweet_text sentiment) =
     Some (py ''background-color: ''
       @ (if sentiment = py ''Positive'' then py ''#4CAF50'' else py ''#F44336'')
       @ py (''; padding: 12px; border-radius: 8px; margin: 10px 0; '' @
            ''box-shadow: 0 2px 4px rgba(0,0,0,0.1)''))\<close>
  by (simp add: card_text div_style_def) (simp add: py_def)

lemma card_background:
  "background_color (create_card tweet_text sentiment) =
     Some (if sentiment = py ''Positive'' then py ''#4CAF50'' else py ''#F44336'')"
  by (simp add: background_color_def card_div_style css_value_def) (simp add: py_def)

text \<open>
  Claim C5. For every tweet text and sentiment string, the background colour of the
  card's \<open>div\<close>, read from its style attribute, is \<open>#4CAF50\<close> exactly when the
  sentiment equals \<open>Positive\<close> and \<open>#F44336\<close> otherwise, whatever the tweet text
  holds; the card is the template of lines 76 to 81 character by character, with the
  sentiment label as its heading and the tweet text, verbatim, as its paragraph.
\<close>

theorem create_card_colour_and_text:
  \<open>background_color (create_card tweet_text sentiment)
     = Some (if sentiment = py ''Positive'' then py ''#4CAF50'' else py ''#F44336'')
   \<and> (background_color (create_card tweet_text sentiment) = Some (py ''#4CAF50''))
       = (sentiment = py ''Positive'')
   \<and> (background_color (create_card tweet_text sentiment) = Some (py ''#F44336''))
       = (sentiment \<noteq> py ''Positive'')
   \<and> create_card tweet_text sentiment =
       py ''\<newline>    <div style="background-color: ''
       @ (if sentiment = py ''Positive'' then py ''#4CAF50'' else py ''#F44336'')
       @ py (''; padding: 12px; border-radius: 8px; margin: 10px 0; '' @
            ''box-shadow: 0 2px 4px rgba(0,0,0,0.1)">\<newline>'' @
            ''        <h5 style="color: white; margin-top: 0;">'')
       @ sentiment
       @ py ('' Sentiment</h5>\<newline>'' @
            ''        <p style="color: white; margin-bottom: 0;">'')
       @ tweet_text
       @ py ''</p>\<newline>    </div>\<newline>    ''
   \<and> sublist (py ''<h5 style="color: white; margin-top: 0;">'' @ sentiment @ py '' Sentiment</h5>'')
       (create_card tweet_text sentiment)
   \<and> sublist (py ''<p style="color: white; margin-bottom: 0;">'' @ tweet_text @ py ''</p>'')
       (create_card tweet_text sentiment)\<close>
proof -
  let ?colour = "if sentiment = py ''Positive'' then py ''#4CAF50'' else py ''#F44336''"
  have bg: "background_color (create_card tweet_text sentiment) = Some ?colour"
    by (rule card_background)
  have green: "(background_color (create_card tweet_text sentiment) = Some (py ''#4CAF50''))
      = (sentiment = py ''Positive'')"
    by (simp add: bg) (simp add: py_def)
  have red: "(background_color (create_card tweet_text sentiment) = Some (py ''#F44336''))
      = (sentiment \<noteq> py ''Positive'')"
    by (simp add: bg) (simp add: py_def)
  have heading: \<open>sublist (py ''<h5 style="color: white; margin-top: 0;">'' @ sentiment @ py '' Sentiment</h5>'')
       (create_card tweet_text sentiment)\<close>
  proof -
    have \<open>create_card tweet_text sentiment =
        (py ''\<newline>    <div style="background-color: '' @ ?colour
          @ py (''; padding: 12px; border-radius: 8px; margin: 10px 0; '' @
               ''box-shadow: 0 2px 4px rgba(0,0,0,0.1)">\<newline>        ''))
        @ (py ''<h5 style="color: white; margin-top: 0;">'' @ sentiment @ py '' Sentiment</h5>'')
        @ (py (''\<newline>        <p style="color: white; margin-bottom: 0;">'') @ tweet_text
          @ py ''</p>\<newline>    </div>\<newline>    '')\<close>
      by (simp add: card_text py_def)
    then show ?thesis
      unfolding sublist_def by blast
  qed
  have para: \<open>sublist (py ''<p style="color: white; margin-bottom: 0;">'' @ tweet_text @ py ''</p>'')
       (create_card tweet_text sentiment)\<close>
  proof -
    have \<open>create_card tweet_text sentiment =
        (py ''\<newline>    <div style="background-color: '' @ ?colour
          @ py (''; padding: 12px; border-radius: 8px; margin: 10px 0; '' @
               ''box-shadow: 0 2px 4px rgba(0,0,0,0.1)">\<newline>'' @
               ''        <h5 style="color: white; margin-top: 0;">'')
          @ sentiment @ py '' Sentiment</h5>\<newline>        '')
        @ (py ''<p style="color: white; margin-bottom: 0;">'' @ tweet_text @ py ''</p>'')
        @ py ''\<newline>    </div>\<newline>    ''\<close>
      by (simp add: card_text py_def)
    then show ?thesis
      unfolding sublist_def by blast
  qed
  from bg green red card_text [of tweet_text sentiment] heading para show ?thesis
    by (intro conjI)
qed

theorem create_card_witness:
  "background_color (create_card (py ''<b>hi</b>'') (py ''Positive'')) = Some (py ''#4CAF50'')
   \<and> background_color (create_card (py ''<b>hi</b>'') (py ''Negative'')) = Some (py ''#F44336'')
   \<and> background_color (create_card (py ''background-color: #4CAF50;'') (py ''positive''))
       = Some (py ''#F44336'')"
proof -
  have "py ''Negative'' \<noteq> py ''Positive''" and "py ''positive'' \<noteq> py ''Positive''"
    by (simp_all add: py_def)
  with create_card_colour_and_text [of "py ''<b>hi</b>''" "py ''Positive''", THEN conjunct1]
    create_card_colour_and_text [of "py ''<b>hi</b>''" "py ''Negative''", THEN conjunct1]
    create_card_colour_and_text [of "py ''background-color: #4CAF50;''" "py ''positive''", THEN conjunct1]
  show ?thesis by simp
qed

section \<open>The calls into the scraping library\<close>

lemma scraper_calls_append: "scraper_calls (xs @ ys) = scraper_calls xs @ scraper_calls ys"
  by (simp add: scraper_calls_def)

lemma scraper_calls_Nil: "scraper_calls [] = []"
  and scraper_calls_Cons:
    "scraper_calls (ev # evs) = (if scraper_call ev then ev # scraper_calls evs else scraper_calls evs)"
  by (simp_all add: scraper_calls_def)

lemmas scraper_simps = scraper_calls_append scraper_calls_Nil scraper_calls_Cons scraper_call_def

lemma attempt_scraper_calls: "scraper_calls (snd (attempt env a)) = attempt_calls env a"
  by (simp add: attempt_def attempt_calls_def run_simps scraper_simps split: sum.splits)

lemma reached_Cons:
  "reached env (a # is) = (if attempt_fails env a then a # reached env is else [a])"
proof (cases "attempt_fails env a")
  case True
  let ?P = "attempt_fails env"
  have d: "dropWhile ?P (a # is) = dropWhile ?P is" and t: "takeWhile ?P (a # is) = a # takeWhile ?P is"
    using True by simp_all
  show ?thesis
  proof (cases "dropWhile ?P is")
    case Nil
    with True show ?thesis
      by (simp only: reached_def d Nil list.case if_True)
  next
    case (Cons b rest)
    with True show ?thesis
      by (simp only: reached_def d t Cons list.case if_True append_Cons)
  qed
next
  case False
  then show ?thesis by (simp add: reached_def)
qed

lemma try_instances_scraper_calls:
  "scraper_calls (snd (try_instances env is)) = concat (map (attempt_calls env) (reached env is))"
proof (induction "is")
  case Nil
  then show ?case by (simp add: run_simps scraper_simps reached_def)
next
  case (Cons a "is")
  then show ?case
    by (simp add: try_instances_log scraper_calls_append scraper_calls_Nil attempt_scraper_calls
        reached_Cons del: try_instances.simps)
qed

lemma try_instances_None:
  "fst (try_instances env is) = Inr None \<longleftrightarrow> dropWhile (attempt_fails env) is = []"
proof (induction "is")
  case Nil
  then show ?case by (simp add: run_simps)
next
  case (Cons a "is")
  obtain r where r: "fst (attempt env a) = Inr r"
    using attempt_total by blast
  show ?case
  proof (cases r)
    case None
    with r have "attempt_fails env a" by (simp add: attempt_result)
    with r None Cons show ?thesis by (simp add: run_simps)
  next
    case (Some scraper)
    with r have "fst (attempt env a) \<noteq> Inr None" by simp
    then have "\<not> attempt_fails env a" by (simp only: attempt_result not_False_eq_True)
    with r Some show ?thesis by (simp add: run_simps)
  qed
qed

lemma initialize_scraper_calls:
  "scraper_calls (snd (initialize_scraper env)) =
     concat (map (attempt_calls env) (reached env working_instances))
     @ (if dropWhile (attempt_fails env) working_instances = [] then [Call_Nitter 1 True None] else [])"
proof -
  obtain r where r: "fst (try_instances env working_instances) = Inr r"
    using try_instances_total by blast
  show ?thesis
  proof (cases r)
    case None
    with r have "dropWhile (attempt_fails env) working_instances = []"
      by (simp add: try_instances_None)
    with r None show ?thesis
      by (simp add: initialize_scraper_def run_simps scraper_simps try_instances_scraper_calls
          split: sum.splits)
  next
    case (Some scraper)
    with r have "fst (try_instances env working_instances) \<noteq> Inr None" by simp
    then have "dropWhile (attempt_fails env) working_instances \<noteq> []"
      by (simp only: try_instances_None not_False_eq_True)
    with r Some show ?thesis
      by (simp add: initialize_scraper_def run_simps scraper_simps try_instances_scraper_calls)
  qed
qed

lemma load_stopwords_scraper_calls: "scraper_calls (snd (load_stopwords env)) = []"
  by (simp add: load_stopwords_def run_simps scraper_simps split: sum.splits)

lemma load_model_scraper_calls: "scraper_calls (snd (load_model_and_vectorizer env)) = []"
  by (simp add: load_model_and_vectorizer_def run_simps scraper_simps split: sum.splits)

lemma main_setup_scraper_calls:
  "scraper_calls (snd (main_setup env)) = [] \<or>
   scraper_calls (snd (main_setup env)) = scraper_calls (snd (initialize_scraper env))"
  by (simp add: main_setup_def run_simps scraper_simps load_stopwords_scraper_calls
      load_model_scraper_calls split: sum.splits prod.splits)

lemma main_setup_scraper:
  "fst (main_setup env) = Inr (stop_words, model, vectorizer, scraper) \<Longrightarrow>
   fst (initialize_scraper env) = Inr scraper"
  by (auto simp: main_setup_def run_simps split: sum.splits prod.splits)

lemma main_tab1_scraper_calls: "scraper_calls (snd (main_tab1 env m v sw)) = []"
  by (simp add: main_tab1_def run_simps scraper_simps Let_def split: sum.splits)

lemma for_tweets_scraper_calls: "scraper_calls (snd (for_tweets m v sw tweets)) = []"
  by (induction tweets) (simp_all add: run_simps scraper_simps split: sum.splits)

lemma main_tab2_scraper_calls:
  "scraper_calls (snd (main_tab2 env scraper m v sw)) = [] \<or>
   (\<exists>the_scraper. scraper = Some the_scraper
      \<and> scraper_calls (snd (main_tab2 env scraper m v sw))
          = [Call_get_tweets the_scraper (st_text_input env) (py ''user'') 5 3])"
  by (cases scraper)
    (simp_all add: main_tab2_def run_simps scraper_simps Let_def for_tweets_scraper_calls
      split: sum.splits option.splits)

lemma main_scraper_calls:
  "\<exists>fetch. scraper_calls (snd (main env)) = scraper_calls (snd (main_setup env)) @ fetch
     \<and> (fetch = [] \<or>
         (\<exists>scraper. fst (initialize_scraper env) = Inr (Some scraper)
            \<and> fetch = [Call_get_tweets scraper (st_text_input env) (py ''user'') 5 3]))"
proof (cases "fst (main_setup env)")
  case (Inl e)
  then show ?thesis by (simp add: main_log)
next
  case (Inr r)
  obtain stop_words model vectorizer scraper where r: "r = (stop_words, model, vectorizer, scraper)"
    by (cases r) auto
  from Inr r have init: "fst (initialize_scraper env) = Inr scraper"
    by (simp add: main_setup_scraper)
  show ?thesis
  proof (cases "fst (main_tab1 env model vectorizer stop_words)")
    case (Inl e)
    with Inr r show ?thesis
      by (simp add: main_log scraper_calls_append main_tab1_scraper_calls)
  next
    case tab1: (Inr u)
    from main_tab2_scraper_calls [of env scraper model vectorizer stop_words] show ?thesis
    proof
      assume "scraper_calls (snd (main_tab2 env scraper model vectorizer stop_words)) = []"
      with Inr r tab1 show ?thesis
        by (simp add: main_log scraper_calls_append main_tab1_scraper_calls)
    next
      assume "\<exists>the_scraper. scraper = Some the_scraper
          \<and> scraper_calls (snd (main_tab2 env scraper model vectorizer stop_words))
              = [Call_get_tweets the_scraper (st_text_input env) (py ''user'') 5 3]"
      then obtain the_scraper where "scraper = Some the_scraper"
        and "scraper_calls (snd (main_tab2 env scraper model vectorizer stop_words))
              = [Call_get_tweets the_scraper (st_text_input env) (py ''user'') 5 3]"
        by blast
      with Inr r tab1 init show ?thesis
        by (simp add: main_log scraper_calls_append main_tab1_scraper_calls)
    qed
  qed
qed

lemma reached_prefix: "prefix (reached env is) is"
proof (cases "dropWhile (attempt_fails env) is")
  case Nil
  then show ?thesis by (simp only: reached_def list.case prefix_order.order_refl)
next
  case (Cons b rest)
  have "is = takeWhile (attempt_fails env) is @ dropWhile (attempt_fails env) is"
    by simp
  then have "is = (takeWhile (attempt_fails env) is @ [b]) @ rest"
    by (simp only: Cons) simp
  moreover have "reached env is = takeWhile (attempt_fails env) is @ [b]"
    by (simp only: reached_def Cons list.case)
  ultimately show ?thesis
    by (metis prefixI)
qed

text \<open>
  Claim C4, amended. The calls that \<open>initialize_scraper\<close> makes into the scraping
  library are exactly these: for each of the instances it gets to, in the fixed order
  and each once, one constructor call and, when that returns, one test request through
  the scraper just constructed, with \<open>number=1\<close> and \<open>max_retries=1\<close>; it goes on
  to the next instance exactly when the attempt fails; and when all four have failed,
  one last constructor call with the instance check disabled and no request. \<open>main\<close>
  adds to them at most one request, through the scraper that \<open>initialize_scraper\<close>
  returned, with \<open>number=5\<close> and \<open>max_retries=3\<close>. So no request is sent twice to
  an endpoint and the retry counts are constants passed on to \<open>get_tweets\<close>, but the
  loop over alternative endpoints is part of this repository.
\<close>

theorem retry_behaviour:
  "scraper_calls (snd (initialize_scraper env)) =
     concat (map (attempt_calls env) (reached env working_instances))
     @ (if dropWhile (attempt_fails env) working_instances = [] then [Call_Nitter 1 True None] else [])
   \<and> instances_tried (snd (initialize_scraper env)) = reached env working_instances
   \<and> prefix (reached env working_instances) working_instances
   \<and> distinct (reached env working_instances)
   \<and> (scraper_calls (snd (main_setup env)) = []
       \<or> scraper_calls (snd (main_setup env)) = scraper_calls (snd (initialize_scraper env)))
   \<and> (\<exists>fetch. scraper_calls (snd (main env)) = scraper_calls (snd (main_setup env)) @ fetch
        \<and> (fetch = [] \<or>
            (\<exists>scraper. fst (initialize_scraper env) = Inr (Some scraper)
               \<and> fetch = [Call_get_tweets scraper (st_text_input env) (py ''user'') 5 3])))"
proof -
  have tried: "instances_tried (snd (initialize_scraper env)) = reached env working_instances"
    by (simp only: initialize_scraper_tried try_instances_tried reached_def)
  have "distinct working_instances"
    by (simp add: working_instances_def py_def)
  with reached_prefix [of env working_instances]
  have dist: "distinct (reached env working_instances)"
    by (metis distinct_append prefix_def)
  from initialize_scraper_calls [of env] tried reached_prefix [of env working_instances] dist
    main_setup_scraper_calls [of env] main_scraper_calls [of env]
  show ?thesis by (intro conjI)
qed

lemma offline_fails: "attempt_fails env_offline a"
  by (simp add: attempt_fails_def env_offline_def)

lemma second_instance_fails:
  "attempt_fails env_second_instance (py ''https://nitter.net'')"
  "\<not> attempt_fails env_second_instance (py ''https://nitter.it'')"
  by (simp_all add: attempt_fails_def env_second_instance_def tweets_entry_def two_tweets_def)
     (simp_all add: py_def)

lemma second_instance_reached:
  "reached env_second_instance working_instances
     = [py ''https://nitter.net'', py ''https://nitter.it'']"
  by (simp add: working_instances_def reached_Cons second_instance_fails)

lemma second_instance_tried:
  "instances_tried (snd (initialize_scraper env_second_instance))
     = [py ''https://nitter.net'', py ''https://nitter.it'']"
  using second_instance_reached
  by (simp only: initialize_scraper_tried try_instances_tried reached_def)

theorem retry_behaviour_witness:
  "scraper_calls (snd (initialize_scraper env_second_instance))
     = [Call_Nitter 1 False (Some (py ''https://nitter.net'')),
        Call_Nitter 1 False (Some (py ''https://nitter.it'')),
        Call_get_tweets 17 (py ''twitter'') (py ''user'') 1 1]
   \<and> scraper_calls (snd (initialize_scraper env_offline))
     = map (\<lambda>instance. Call_Nitter 1 False (Some instance)) working_instances
       @ [Call_Nitter 1 True None]"
proof -
  have d2: "dropWhile (attempt_fails env_second_instance) working_instances \<noteq> []"
    by (simp add: working_instances_def second_instance_fails)
  have c2: "concat (map (attempt_calls env_second_instance)
        [py ''https://nitter.net'', py ''https://nitter.it''])
      = [Call_Nitter 1 False (Some (py ''https://nitter.net'')),
        Call_Nitter 1 False (Some (py ''https://nitter.it'')),
        Call_get_tweets 17 (py ''twitter'') (py ''user'') 1 1]"
    by (simp add: attempt_calls_def env_second_instance_def) (simp add: py_def)
  have d0: "dropWhile (attempt_fails env_offline) working_instances = []"
    by (simp add: offline_fails)
  have r0: "reached env_offline working_instances = working_instances"
    by (simp only: reached_def d0 list.case)
  have c0: "concat (map (attempt_calls env_offline) working_instances)
      = map (\<lambda>instance. Call_Nitter 1 False (Some instance)) working_instances"
    by (simp add: attempt_calls_def env_offline_def working_instances_def)
  from retry_behaviour [of env_second_instance, THEN conjunct1]
    retry_behaviour [of env_offline, THEN conjunct1]
  show ?thesis
    by (simp only: second_instance_reached c2 d2 r0 c0 d0 if_True if_False append_Nil2) simp
qed

text \<open>
  Claim C4, as stated, fails: the repository does loop over alternative endpoints. When
  the first instance cannot be reached, \<open>initialize_scraper\<close> constructs a scraper for
  the second one and sends the test request again.
\<close>

theorem second_instance_counterexample:
  "instances_tried (snd (initialize_scraper env_second_instance))
     = [py ''https://nitter.net'', py ''https://nitter.it'']
   \<and> \<not> length (instances_tried (snd (initialize_scraper env_second_instance))) \<le> 1"
  by (simp add: second_instance_tried)

section \<open>A fetch after a failed load\<close>

lemma second_instance_tab2:
  "snd (main_tab2 env_second_instance (Some 17) None None [py ''i'', py ''this'']) =
     [St_text_input (py ''Enter Twitter username:'') (py ''elonmusk'') username_help,
      St_button (py ''Fetch & Analyze Tweets''),
      St_spinner (py ''Fetching tweets from @nasa...''),
      Call_get_tweets 17 (py ''nasa'') (py ''user'') 5 3,
      St_success (py ''Found 2 recent tweets''),
      Call_predict_sentiment (py ''good morning'') None None [py ''i'', py ''this''],
      St_error (py ''Error fetching tweets: '' @ exn_str (none_has_no_attribute ''predict'')),
      St_info troubleshooting_tips]"
proof -
  have loop: "for_tweets (None :: nat list pyobj option) None [py ''i'', py ''this''] two_tweets
      = (Inl (none_has_no_attribute ''predict''),
         [Call_predict_sentiment (py ''good morning'') None None [py ''i'', py ''this'']])"
    by (simp add: two_tweets_def andthen_def eval_def call_def tweet_text_of_def
        predict_sentiment_def classify_def)
  have dec: "decimal (length two_tweets) = [50]"
    by (simp add: two_tweets_def decimal.simps)
  have found: "py ''Found '' @ 50 # py '' recent tweets'' = py ''Found 2 recent tweets''"
    by (simp add: py_def)
  have spin: "py ''Fetching tweets from @'' @ py ''nasa'' @ py ''...'' = py ''Fetching tweets from @nasa...''"
    by (simp add: py_def)
  have ne: "two_tweets \<noteq> []"
    by (simp add: two_tweets_def)
  show ?thesis
    using second_instance_facts two_tweets_entry second_instance_widgets
    by (simp add: main_tab2_def run_simps Let_def loop dec found spin ne)
qed

lemma second_instance_log:
  "snd (main env_second_instance) =
      snd (main_setup env_second_instance)
        @ snd (main_tab1 env_second_instance None None [py ''i'', py ''this''])
        @ snd (main_tab2 env_second_instance (Some 17) None None [py ''i'', py ''this''])"
proof -
  note tab1 = main_tab1_idle [OF second_instance_facts(1), of None None "[py ''i'', py ''this'']"]
  have "fst (main_tab1 env_second_instance None None [py ''i'', py ''this'']) = Inr ()"
    using tab1 by blast
  then show ?thesis
    by (simp add: main_log second_instance_setup)
qed

text \<open>
  Claim C7 says that every tweet of the response is classified and rendered. In the run
  below the model files could not be loaded, so \<open>main\<close> holds the pair
  \<open>(None, None)\<close> and passes it on unchecked; the scraper answers the fetch (sent with
  \<open>number=5\<close>) with two tweets. The first call of \<open>predict_sentiment\<close> raises, the
  handler around the fetch shows an error about fetching, and no tweet is rendered.
\<close>

theorem unloaded_fetch_renders_nothing:
  "fst (main_setup env_second_instance) = Inr ([py ''i'', py ''this''], None, None, Some 17)
   \<and> get_tweets env_second_instance 17 (py ''nasa'') (py ''user'') 5 3
       = Inr (DictResponse [(py ''tweets'', two_tweets)])
   \<and> length two_tweets = 2
   \<and> rendered (snd (main env_second_instance)) = []
   \<and> (\<exists>before. snd (main env_second_instance) = before @
         [Call_predict_sentiment (py ''good morning'') None None [py ''i'', py ''this''],
          St_error (py ''Error fetching tweets: '' @ exn_str (none_has_no_attribute ''predict'')),
          St_info troubleshooting_tips])
   \<and> fst (main env_second_instance) = Inr ()"
proof -
  let ?tail = "[Call_predict_sentiment (py ''good morning'') None None [py ''i'', py ''this''],
          St_error (py ''Error fetching tweets: '' @ exn_str (none_has_no_attribute ''predict'')),
          St_info troubleshooting_tips] :: (nat list, nat) event list"
  let ?head = "[St_text_input (py ''Enter Twitter username:'') (py ''elonmusk'') username_help,
           St_button (py ''Fetch & Analyze Tweets''),
           St_spinner (py ''Fetching tweets from @nasa...''),
           Call_get_tweets 17 (py ''nasa'') (py ''user'') 5 3,
           St_success (py ''Found 2 recent tweets'')] :: (nat list, nat) event list"
  have tab2: "snd (main_tab2 env_second_instance (Some 17) None None [py ''i'', py ''this''])
      = ?head @ ?tail"
    by (simp only: second_instance_tab2 append.simps)
  define before where "before = snd (main_setup env_second_instance)
        @ snd (main_tab1 env_second_instance None None [py ''i'', py ''this'']) @ ?head"
  have "snd (main env_second_instance) = before @ ?tail"
    by (simp only: before_def second_instance_log tab2 append_assoc)
  then have ends: "\<exists>before. snd (main env_second_instance) = before @ ?tail"
    by (rule exI [of _ before])
  have "map Inr (rendered (snd (main env_second_instance)))
      = takeWhile (\<lambda>card. \<not> isl card)
          (map (tweet_card (None :: nat list pyobj option) None [py ''i'', py ''this'']) two_tweets)"
    by (rule main_fetch(2) [OF second_instance_setup second_instance_facts two_tweets_entry])
  also have "\<dots> = []"
    by (simp add: two_tweets_def tweet_card_def tweet_text_of_def predict_sentiment_def classify_def)
  finally have none: "rendered (snd (main env_second_instance)) = []"
    by simp
  have len: "length two_tweets = 2"
    by (simp add: two_tweets_def)
  have returned: "fst (main env_second_instance) = Inr ()"
    by (rule main_fetch(3) [OF second_instance_setup second_instance_facts two_tweets_entry])
  have gt: "get_tweets env_second_instance 17 (py ''nasa'') (py ''user'') 5 3
       = Inr (DictResponse [(py ''tweets'', two_tweets)])"
    using second_instance_widgets by blast
  show ?thesis
    by (intro conjI) (rule second_instance_setup gt len none ends returned)+
qed

section \<open>What a call does to the loaded objects\<close>


lemmas new_defs = new_str_def new_list_def new_matrix_def new_array_def Let_def

lemma clean_text_store_frame:
  assumes "clean_text_store h text stop_words = (h', cleaned)"
  shows "prefix (strs h) (strs h')" and "prefix (lists h) (lists h')"
    and "matrices h' = matrices h" and "arrays h' = arrays h" and "objs h' = objs h"
  using assms by (auto simp: clean_text_store_def new_defs)

lemma clean_text_store_value:
  assumes "clean_text_store h text stop_words = (h', cleaned)"
    and "text < length (strs h)" and "stop_words < length (lists h)"
  shows "strs h' ! cleaned = clean_text (strs h ! text) (lists h ! stop_words)"
  using assms by (auto simp: clean_text_store_def clean_text_def new_defs nth_append)










lemma classify_store_value:
  assumes "classify_store h text model vectorizer = (outcome, h')" and "model \<noteq> vectorizer"
  shows "map_sum id (\<lambda>result. strs h' ! result) outcome
     = classify (strs h ! text) (map_option view (objs h ! model))
         (map_option view (objs h ! vectorizer))"
  using assms
  by (auto simp: classify_store_def classify_def view_def new_defs split_beta nth_append
      split: option.splits sum.splits list.splits)

lemma store_agrees:
  assumes run: "predict_sentiment_store h text model vectorizer stop_words = (outcome, h')"
    and "text < length (strs h)" and "stop_words < length (lists h)" and "model \<noteq> vectorizer"
  shows "map_sum id (\<lambda>result. strs h' ! result) outcome
     = predict_sentiment (strs h ! text) (map_option view (objs h ! model))
         (map_option view (objs h ! vectorizer)) (lists h ! stop_words)"
proof -
  obtain h1 cleaned where c: "clean_text_store h text stop_words = (h1, cleaned)"
    by (cases "clean_text_store h text stop_words")
  with run have k: "classify_store h1 cleaned model vectorizer = (outcome, h')"
    by (simp add: predict_sentiment_store_def)
  from classify_store_value [OF k assms(4)] clean_text_store_value [OF c assms(2,3)]
    clean_text_store_frame(5) [OF c]
  show ?thesis by (simp add: predict_sentiment_def)
qed















end
